(* ===== verification/Prelude.thy ===== *)
theory Prelude
  imports Complex_Main
begin

text \<open>
  Shared vocabulary of the Gympoint backend model: the types of record identifiers and
  server timestamps, the HTTP error responses the controllers return, the numeric checks
  the Yup validation schemas perform on JSON numbers, and generic lemmas on lists and
  association lists that the component theories share.
\<close>

named_theorems model_simps "evaluation rules of the model's helper definitions"
named_theorems frame_simps "the tables a handler leaves unchanged"

type_synonym pk = int
  \<comment> \<open>a primary or foreign key value (Sequelize \<open>INTEGER\<close>)\<close>

type_synonym timestamp = int
  \<comment> \<open>a JavaScript \<open>Date\<close> value: milliseconds since the epoch\<close>

text \<open>
  Every early return of a controller is \<open>res.status(code).json({error: msg})\<close>; an
  exception that escapes a handler (a rejected database write) is answered by the
  application's error handler with status 500.
\<close>

datatype http_error = Http_error nat string | Server_error

type_synonym 'a res = "http_error + 'a"

abbreviation validation_fails :: http_error where
  "validation_fails \<equiv> Http_error 400 ''Validation fails''"

text \<open>
  JSON numbers are JavaScript doubles; the model reads them as rationals (the rounding of
  binary floating point is not modelled). \<open>Yup.number().integer()\<close> is
  \<open>Number.isInteger\<close>.
\<close>

definition is_int :: "rat \<Rightarrow> bool" where
  "is_int r \<longleftrightarrow> of_int \<lfloor>r\<rfloor> = r"

subsection \<open>Yup field checks\<close>

text \<open>
  \<open>Yup.number().integer()\<close> with and without \<open>.required()\<close>, and
  \<open>Yup.string().required()\<close>, which also refuses the empty string, on a field of a
  JSON body that may be missing (\<open>None\<close>).
\<close>

definition req_int :: "rat option \<Rightarrow> bool" where
  "req_int v = (case v of None \<Rightarrow> False | Some r \<Rightarrow> is_int r)"

definition opt_int :: "rat option \<Rightarrow> bool" where
  "opt_int v = (case v of None \<Rightarrow> True | Some r \<Rightarrow> is_int r)"

definition req_str :: "string option \<Rightarrow> bool" where
  "req_str v = (case v of None \<Rightarrow> False | Some x \<Rightarrow> x \<noteq> [])"

text \<open>The string a field holds; used only once the schema has required it.\<close>

definition body_str :: "string option \<Rightarrow> string" where
  "body_str v = (case v of None \<Rightarrow> [] | Some x \<Rightarrow> x)"

subsection \<open>Rendering numbers\<close>

definition digit_char :: "nat \<Rightarrow> char" where
  "digit_char n = char_of (48 + n)"

fun nat_str :: "nat \<Rightarrow> string" where
  "nat_str n = (if n < 10 then [digit_char n] else nat_str (n div 10) @ [digit_char (n mod 10)])"

declare nat_str.simps [simp del]

text \<open>\<open>addLeadingZeros(number, targetLength)\<close> for a non-negative number.\<close>

definition add_leading_zeros :: "nat \<Rightarrow> nat \<Rightarrow> string" where
  "add_leading_zeros k n = (let s = nat_str n in replicate (k - length s) (CHR ''0'') @ s)"

text \<open>
  \<open>Number.prototype.toFixed(2)\<close>: the integer \<open>n\<close> nearest to \<open>100 * |x|\<close>, the
  larger one on a tie, printed with two decimals, after a minus sign when \<open>x < 0\<close>.
  Values of \<open>10^21\<close> and more, which JavaScript prints in exponent form, are not
  modelled.
\<close>

definition to_fixed2 :: "rat \<Rightarrow> string" where
  "to_fixed2 x =
     (let n = nat \<lfloor>\<bar>x\<bar> * 100 + 1 / 2\<rfloor>
      in (if x < 0 then ''-'' else []) @ nat_str (n div 100) @ ''.'' @ add_leading_zeros 2 (n mod 100))"

subsection \<open>Numbers\<close>

lemma is_int_of_int [simp]: "is_int (of_int k)"
  by (simp add: is_int_def)

lemma is_int_numeral [simp]: "is_int (numeral k)" "is_int 0" "is_int 1"
  by (simp_all add: is_int_def)

lemma is_int_neg_numeral [simp]: "is_int (- numeral k)"
  by (simp add: is_int_def)

lemma is_int_floor: "is_int r \<Longrightarrow> r = of_int \<lfloor>r\<rfloor>"
  by (metis is_int_def)

lemma field_check_simps [model_simps]:
  "req_int None = False" "req_int (Some r) = is_int r"
  "opt_int None = True" "opt_int (Some r) = is_int r"
  "req_str None = False" "req_str (Some x) = (x \<noteq> [])"
  "body_str (Some x) = x"
  by (simp_all add: req_int_def opt_int_def req_str_def body_str_def)

lemma floor_half: "\<lfloor>(1::rat) / 2\<rfloor> = 0"
  by (simp add: floor_eq_iff)

text \<open>\<open>toFixed(2)\<close> of a whole number is its digits and \<open>.00\<close>.\<close>

lemma to_fixed2_of_int: "0 \<le> k \<Longrightarrow> to_fixed2 (of_int k) = nat_str (nat k) @ ''.00''"
proof -
  assume k: "0 \<le> k"
  have "\<lfloor>(of_int k :: rat) * 100\<rfloor> = k * 100"
    by (metis floor_of_int of_int_mult of_int_numeral)
  with k have "\<lfloor>\<bar>of_int k :: rat\<bar> * 100 + 1 / 2\<rfloor> = 100 * k"
    by (simp add: floor_half)
  moreover have "add_leading_zeros 2 0 = ''00''"
    by code_simp
  ultimately show ?thesis using k
    by (simp add: to_fixed2_def nat_mult_distrib)
qed

subsection \<open>Counting in lists\<close>

lemma length_filter_append_single [simp]:
  "length (filter P (xs @ [x])) = length (filter P xs) + (if P x then 1 else 0)"
  by simp

lemma length_filter_mono_pred:
  "(\<And>x. x \<in> set xs \<Longrightarrow> P x \<Longrightarrow> Q x) \<Longrightarrow> length (filter P xs) \<le> length (filter Q xs)"
  by (induction xs) auto

lemma length_filter_cong:
  "(\<And>x. x \<in> set xs \<Longrightarrow> P x = Q x) \<Longrightarrow> length (filter P xs) = length (filter Q xs)"
  by (metis filter_cong)

subsection \<open>Results\<close>

lemma isl_map_sum [simp]: "isl (map_sum f g x) = isl x"
  by (cases x) simp_all

subsection \<open>Association lists keyed by distinct keys\<close>

lemma map_of_append_fresh [simp]:
  "k \<notin> fst ` set xs \<Longrightarrow> map_of (xs @ [(k, v)]) = (map_of xs)(k \<mapsto> v)"
proof -
  assume "k \<notin> fst ` set xs"
  then have "map_of xs k = None" by (simp add: map_of_eq_None_iff)
  then show ?thesis by (auto simp: fun_eq_iff map_add_def split: option.splits)
qed

lemma map_of_filter_key:
  "map_of (filter (\<lambda>(i, _). i \<noteq> k) xs) = (map_of xs)(k := None)"
  by (induction xs) (auto simp: fun_eq_iff)

lemma map_of_map_at_key:
  "map_of (map (\<lambda>(i, x). if i = k then (i, f x) else (i, x)) xs) =
   (\<lambda>j. if j = k then map_option f (map_of xs k) else map_of xs j)"
  by (induction xs) (auto simp: fun_eq_iff)

lemma fst_comp_at_key [simp]:
  "fst \<circ> (\<lambda>(i, x). if i = k then (i, f x) else (i, x)) = fst"
  by (auto simp: fun_eq_iff)

end
