(* ===== verification/Dates.thy ===== *)
theory Dates
  imports Prelude
begin

text \<open>
  The calendar functions of the \<open>date-fns\<close> library that the controllers call:
  \<open>addMonths\<close> (the end date of an enrollment), \<open>subWeeks\<close> (the start of the check-in
  window), \<open>parseISO\<close> (the enrollment start date of a request) and
  \<open>format(d, 'MM/dd/yyyy')\<close> (the dates of the enrollment mail). The library is not part
  of the repository; the definitions follow its documented behaviour. A calendar date is
  a record of year, month (1 to 12, where JavaScript counts 0 to 11) and day; the time
  of day that a JavaScript \<open>Date\<close> carries along is not modelled. Timestamps are
  milliseconds in a time zone without daylight saving time.
\<close>

record date =
  year :: int
  month :: nat
  day :: nat

definition is_leap :: "int \<Rightarrow> bool" where
  "is_leap y \<longleftrightarrow> (y mod 4 = 0 \<and> y mod 100 \<noteq> 0) \<or> y mod 400 = 0"

definition days_in_month :: "int \<Rightarrow> nat \<Rightarrow> nat" where
  "days_in_month y m =
     (if m = 2 then (if is_leap y then 29 else 28)
      else if m = 4 \<or> m = 6 \<or> m = 9 \<or> m = 11 then 30 else 31)"

definition valid_date :: "date \<Rightarrow> bool" where
  "valid_date d \<longleftrightarrow>
     1 \<le> month d \<and> month d \<le> 12 \<and> 1 \<le> day d \<and> day d \<le> days_in_month (year d) (month d)"

text \<open>Months counted from year 0, January: the quantity \<open>addMonths\<close> shifts.\<close>

definition month_index :: "date \<Rightarrow> int" where
  "month_index d = year d * 12 + int (month d) - 1"

subsection \<open>addMonths\<close>

text \<open>
  \<^verbatim>\<open>
  if (!amount) return date;
  var dayOfMonth = date.getDate();
  var endOfDesiredMonth = new Date(date.getTime());
  endOfDesiredMonth.setMonth(date.getMonth() + amount + 1, 0);
  var daysInMonth = endOfDesiredMonth.getDate();
  if (dayOfMonth >= daysInMonth) return endOfDesiredMonth;
  date.setFullYear(endOfDesiredMonth.getFullYear(), endOfDesiredMonth.getMonth(), dayOfMonth);
  return date;
  \<close>
  \<open>setMonth(m + amount + 1, 0)\<close> is the last day of the month \<open>amount\<close> months on.
\<close>

definition add_months :: "date \<Rightarrow> int \<Rightarrow> date" where
  "add_months d amount =
     (if amount = 0 then d
      else let mi = month_index d + amount;
               y = mi div 12;
               m = nat (mi mod 12) + 1;
               days = days_in_month y m
           in if day d \<ge> days then \<lparr>year = y, month = m, day = days\<rparr>
              else \<lparr>year = y, month = m, day = day d\<rparr>)"

subsection \<open>parseISO\<close>

text \<open>
  A \<open>start_date\<close> of a request body is a string. \<open>Yup.date()\<close> accepts an ISO 8601
  date and any other string \<open>Date.parse\<close> understands (\<open>"01/31/2023"\<close>); \<open>parseISO\<close>
  accepts only the ISO form, and only with a day that exists in its month, and returns
  \<open>Invalid Date\<close> otherwise, also for a missing value.
\<close>

datatype date_in = Iso_date date | Non_iso_date date | Unparsable_date

definition yup_date :: "date_in \<Rightarrow> bool" where
  "yup_date x = (case x of Unparsable_date \<Rightarrow> False | _ \<Rightarrow> True)"

definition parse_iso :: "date_in option \<Rightarrow> date option" where
  "parse_iso x =
     (case x of Some (Iso_date d) \<Rightarrow> if valid_date d then Some d else None | _ \<Rightarrow> None)"

subsection \<open>subWeeks\<close>

definition week_ms :: int where
  "week_ms = 7 * 24 * 60 * 60 * 1000"

definition sub_weeks :: "timestamp \<Rightarrow> int \<Rightarrow> timestamp" where
  "sub_weeks t n = t - n * week_ms"

subsection \<open>format(d, 'MM/dd/yyyy')\<close>

text \<open>\<open>yyyy\<close> prints the year of the era: year 0 is 1 BC.\<close>

definition format_mdy :: "date \<Rightarrow> string" where
  "format_mdy d =
     add_leading_zeros 2 (month d) @ ''/'' @ add_leading_zeros 2 (day d) @ ''/'' @
     add_leading_zeros 4 (nat (if year d > 0 then year d else 1 - year d))"

subsection \<open>Evaluation rules\<close>

lemma yup_date_simps [model_simps]:
  "yup_date (Iso_date d)" "yup_date (Non_iso_date d)" "\<not> yup_date Unparsable_date"
  by (simp_all add: yup_date_def)

lemma parse_iso_simps [model_simps]:
  "parse_iso None = None"
  "parse_iso (Some (Non_iso_date d)) = None"
  "parse_iso (Some Unparsable_date) = None"
  "valid_date d \<Longrightarrow> parse_iso (Some (Iso_date d)) = Some d"
  by (simp_all add: parse_iso_def)

lemma parse_iso_valid: "parse_iso x = Some d \<Longrightarrow> valid_date d"
  by (auto simp: parse_iso_def split: option.splits date_in.splits if_splits)

subsection \<open>Properties of addMonths\<close>

lemma days_in_month_bounds: "28 \<le> days_in_month y m" "days_in_month y m \<le> 31"
  by (simp_all add: days_in_month_def)

lemma add_months_fields:
  assumes "amount \<noteq> 0"
  shows "year (add_months d amount) = (month_index d + amount) div 12"
    and "month (add_months d amount) = nat ((month_index d + amount) mod 12) + 1"
    and "day (add_months d amount) =
           min (day d) (days_in_month ((month_index d + amount) div 12)
                                      (nat ((month_index d + amount) mod 12) + 1))"
  using assms by (simp_all add: add_months_def Let_def)

lemma month_index_add_months: "month_index (add_months d amount) = month_index d + amount"
proof (cases "amount = 0")
  case True
  then show ?thesis by (simp add: add_months_def)
next
  case False
  then show ?thesis by (simp add: add_months_fields month_index_def)
qed

lemma month_add_months_range:
  assumes "valid_date d"
  shows "1 \<le> month (add_months d amount) \<and> month (add_months d amount) \<le> 12"
proof (cases "amount = 0")
  case False
  have "(month_index d + amount) mod 12 < 12" by simp
  with False show ?thesis by (simp add: add_months_fields nat_less_iff)
qed (use assms in \<open>simp add: add_months_def valid_date_def\<close>)

lemma day_add_months:
  assumes "valid_date d"
  shows "day (add_months d amount) =
           min (day d) (days_in_month (year (add_months d amount)) (month (add_months d amount)))"
proof (cases "amount = 0")
  case True
  with assms show ?thesis by (simp add: add_months_def valid_date_def)
next
  case False
  then show ?thesis by (simp add: add_months_fields)
qed

lemma days_in_month_pos: "1 \<le> days_in_month y m"
  using days_in_month_bounds(1) [of y m] by linarith

lemma valid_add_months: "valid_date d \<Longrightarrow> valid_date (add_months d amount)"
  using month_add_months_range [of d amount] day_add_months [of d amount]
        days_in_month_pos
  by (auto simp: valid_date_def min_def)

text \<open>
  \<open>addMonths\<close> refines month arithmetic: on a valid date it returns a valid date
  exactly \<open>amount\<close> months later in the count of months, on the same day of the month
  when that month has it and on its last day otherwise.
\<close>

theorem add_months_spec:
  assumes "valid_date d"
  shows "valid_date (add_months d amount) \<and>
         month_index (add_months d amount) = month_index d + amount \<and>
         day (add_months d amount) =
           min (day d) (days_in_month (year (add_months d amount)) (month (add_months d amount)))"
  using valid_add_months [OF assms] month_index_add_months day_add_months [OF assms] by blast

lemma add_months_leap_day:
  "add_months \<lparr>year = 2024, month = 1, day = 31\<rparr> 1 = \<lparr>year = 2024, month = 2, day = 29\<rparr> \<and>
   valid_date (add_months \<lparr>year = 2024, month = 1, day = 31\<rparr> 1)"
proof -
  have v: "valid_date \<lparr>year = 2024, month = 1, day = 31\<rparr>"
    by (simp add: valid_date_def days_in_month_def)
  have "add_months \<lparr>year = 2024, month = 1, day = 31\<rparr> 1 = \<lparr>year = 2024, month = 2, day = 29\<rparr>"
    by (simp add: add_months_def month_index_def days_in_month_def is_leap_def Let_def)
  then show ?thesis using add_months_spec [OF v, of 1] by simp
qed

end
