(* ===== verification/Table.thy ===== *)
theory Table
  imports Prelude
begin

text \<open>
  The Sequelize operations the controllers use on a table with an auto-increment
  primary key: \<open>findByPk\<close>, \<open>findAll({where})\<close>, \<open>create\<close>, \<open>instance.update\<close> /
  \<open>instance.save\<close> and \<open>destroy({where: {id}})\<close>. A table is its rows, keyed by
  primary key, in storage order, and the next value of the key sequence. The ORM is a
  library the sources call; the definitions follow its documented behaviour. The theory
  proves that every operation keeps a table well formed (distinct keys, all below the
  sequence) and that each operation refines the corresponding update of the finite map
  \<open>tmap\<close> the table stands for. \<open>insert_row\<close> is the insert with a key the
  client may choose, which keeps the keys distinct but not below the sequence.
\<close>

record 'a table =
  rows :: "(pk \<times> 'a) list"
  next_pk :: pk

definition empty_table :: "'a table" where
  "empty_table = \<lparr>rows = [], next_pk = 1\<rparr>"

definition find_pk :: "'a table \<Rightarrow> pk \<Rightarrow> 'a option" where
  "find_pk t k = map_of (rows t) k"

text \<open>
  \<open>findByPk(v)\<close> with a value from a request body: \<open>undefined\<close> and \<open>null\<close> find
  nothing, and a number that is no integer matches no integer key.
\<close>

definition find_by_pk :: "'a table \<Rightarrow> rat option \<Rightarrow> 'a option" where
  "find_by_pk t v =
     (case v of None \<Rightarrow> None | Some r \<Rightarrow> if is_int r then find_pk t \<lfloor>r\<rfloor> else None)"

definition find_all :: "'a table \<Rightarrow> ('a \<Rightarrow> bool) \<Rightarrow> (pk \<times> 'a) list" where
  "find_all t P = filter (\<lambda>(_, x). P x) (rows t)"

definition create :: "'a table \<Rightarrow> 'a \<Rightarrow> pk \<times> 'a table" where
  "create t x = (next_pk t, \<lparr>rows = rows t @ [(next_pk t, x)], next_pk = next_pk t + 1\<rparr>)"

definition update_pk :: "'a table \<Rightarrow> pk \<Rightarrow> ('a \<Rightarrow> 'a) \<Rightarrow> 'a table" where
  "update_pk t k f = t\<lparr>rows := map (\<lambda>(i, x). if i = k then (i, f x) else (i, x)) (rows t)\<rparr>"

definition destroy_pk :: "'a table \<Rightarrow> pk \<Rightarrow> 'a table" where
  "destroy_pk t k = t\<lparr>rows := filter (\<lambda>(i, _). i \<noteq> k) (rows t)\<rparr>"

definition table_wf :: "'a table \<Rightarrow> bool" where
  "table_wf t \<longleftrightarrow> distinct (map fst (rows t)) \<and> list_all (\<lambda>k. k < next_pk t) (map fst (rows t))"

text \<open>
  \<open>INSERT\<close> as PostgreSQL runs it for \<open>Model.create(values)\<close>: with no key in the
  values the key is \<open>DEFAULT\<close>, the next value of the sequence, which is consumed even
  when the insert then fails; with a key the sequence is not touched. A key that is
  already bound violates the primary key and the insert fails (a server error, the
  controllers catch nothing).
\<close>

definition insert_row :: "'a table \<Rightarrow> pk option \<Rightarrow> 'a \<Rightarrow> pk res \<times> 'a table" where
  "insert_row t kk x =
     (let k = (case kk of None \<Rightarrow> next_pk t | Some i \<Rightarrow> i);
          t1 = (case kk of None \<Rightarrow> t\<lparr>next_pk := next_pk t + 1\<rparr> | Some _ \<Rightarrow> t)
      in if find_pk t k \<noteq> None then (Inl Server_error, t1)
         else (Inr k, t1\<lparr>rows := rows t1 @ [(k, x)]\<rparr>))"

text \<open>The primary-key constraint: no two rows share a key.\<close>

definition keys_distinct :: "'a table \<Rightarrow> bool" where
  "keys_distinct t \<longleftrightarrow> distinct (map fst (rows t))"

text \<open>A property every row of a table has.\<close>

definition table_all :: "('a \<Rightarrow> bool) \<Rightarrow> 'a table \<Rightarrow> bool" where
  "table_all P t \<longleftrightarrow> list_all (\<lambda>(_, x). P x) (rows t)"

text \<open>The abstraction: the finite map from keys to rows.\<close>

definition tmap :: "'a table \<Rightarrow> pk \<rightharpoonup> 'a" where
  "tmap t = map_of (rows t)"

subsection \<open>Characteristic equations\<close>

lemma find_pk_tmap [model_simps]: "find_pk t k = tmap t k"
  by (simp add: find_pk_def tmap_def)

lemma find_by_pk_simps [simp]:
  "find_by_pk t None = None"
  "find_by_pk t (Some (of_int k)) = find_pk t k"
  "find_by_pk t (Some (numeral n)) = find_pk t (numeral n)"
  by (simp_all add: find_by_pk_def)

lemma create_fst [simp]: "fst (create t x) = next_pk t"
  by (simp add: create_def)

lemma create_next_pk [simp]: "next_pk (snd (create t x)) = next_pk t + 1"
  by (simp add: create_def)

lemma update_pk_next_pk [simp]: "next_pk (update_pk t k f) = next_pk t"
  by (simp add: update_pk_def)

lemma destroy_pk_next_pk [simp]: "next_pk (destroy_pk t k) = next_pk t"
  by (simp add: destroy_pk_def)

lemma table_wf_empty: "table_wf empty_table"
  by (simp add: table_wf_def empty_table_def)

lemma table_wf_fresh: "table_wf t \<Longrightarrow> tmap t (next_pk t) = None"
  by (auto simp: table_wf_def tmap_def list_all_iff map_of_eq_None_iff)

subsection \<open>Well-formedness is kept\<close>

lemma create_wf: "table_wf t \<Longrightarrow> table_wf (snd (create t x))"
  by (auto simp: table_wf_def create_def list_all_iff)

lemma update_pk_wf: "table_wf t \<Longrightarrow> table_wf (update_pk t k f)"
  by (simp add: table_wf_def update_pk_def)

lemma destroy_pk_wf: "table_wf t \<Longrightarrow> table_wf (destroy_pk t k)"
  by (auto simp: table_wf_def destroy_pk_def list_all_iff distinct_map_filter)

subsection \<open>Refinement of finite maps\<close>

lemma tmap_create: "table_wf t \<Longrightarrow> tmap (snd (create t x)) = (tmap t)(next_pk t \<mapsto> x)"
proof -
  assume "table_wf t"
  then have "next_pk t \<notin> fst ` set (rows t)"
    by (auto simp: table_wf_def list_all_iff)
  then show ?thesis
    by (simp add: tmap_def create_def del: map_of_append)
qed

lemma tmap_update_pk: "tmap (update_pk t k f) = (tmap t)(k := map_option f (tmap t k))"
  by (auto simp: tmap_def update_pk_def map_of_map_at_key fun_eq_iff)

lemma tmap_destroy_pk: "tmap (destroy_pk t k) = (tmap t)(k := None)"
  by (simp add: tmap_def destroy_pk_def map_of_filter_key)

lemma set_find_all:
  "table_wf t \<Longrightarrow> set (find_all t P) = {(k, x). tmap t k = Some x \<and> P x}"
  by (auto simp: table_wf_def tmap_def find_all_def)

subsection \<open>Inserting under a chosen key\<close>

lemma insert_row_default:
  "table_wf t \<Longrightarrow> insert_row t None x = (Inr (fst (create t x)), snd (create t x))"
  by (simp add: insert_row_def create_def table_wf_fresh model_simps Let_def)

lemma insert_row_bound:
  "tmap t k \<noteq> None \<Longrightarrow> insert_row t (Some k) x = (Inl Server_error, t)"
  by (simp add: insert_row_def model_simps)

lemma insert_row_free:
  "tmap t k = None \<Longrightarrow> insert_row t (Some k) x = (Inr k, t\<lparr>rows := rows t @ [(k, x)]\<rparr>)"
  by (simp add: insert_row_def model_simps)

lemma insert_row_collision:
  "tmap t (next_pk t) \<noteq> None \<Longrightarrow>
   insert_row t None x = (Inl Server_error, t\<lparr>next_pk := next_pk t + 1\<rparr>)"
  by (simp add: insert_row_def model_simps)

lemma tmap_append_fresh:
  "tmap t k = None \<Longrightarrow> tmap (t\<lparr>rows := rows t @ [(k, x)]\<rparr>) = (tmap t)(k \<mapsto> x)"
  by (simp add: tmap_def map_add_def fun_eq_iff split: option.split)

lemma keys_distinct_wf: "table_wf t \<Longrightarrow> keys_distinct t"
  by (simp add: table_wf_def keys_distinct_def)

lemma insert_row_distinct: "keys_distinct t \<Longrightarrow> keys_distinct (snd (insert_row t kk x))"
  by (auto simp: insert_row_def keys_distinct_def find_pk_def map_of_eq_None_iff Let_def
           split: option.split)

lemma update_pk_distinct: "keys_distinct t \<Longrightarrow> keys_distinct (update_pk t k f)"
  by (simp add: keys_distinct_def update_pk_def)

lemma destroy_pk_distinct: "keys_distinct t \<Longrightarrow> keys_distinct (destroy_pk t k)"
  by (simp add: keys_distinct_def destroy_pk_def distinct_map_filter)

lemmas keys_distinct_intros = insert_row_distinct update_pk_distinct destroy_pk_distinct

subsection \<open>Properties of all rows\<close>

lemma table_all_empty: "table_all P empty_table"
  by (simp add: table_all_def empty_table_def)

lemma table_all_create: "table_all P t \<Longrightarrow> P x \<Longrightarrow> table_all P (snd (create t x))"
  by (simp add: table_all_def create_def)

lemma table_all_update_pk:
  "table_all P t \<Longrightarrow> (\<And>x. P x \<Longrightarrow> P (f x)) \<Longrightarrow> table_all P (update_pk t k f)"
  by (auto simp: table_all_def update_pk_def list_all_iff split: if_split_asm)

lemma table_all_destroy_pk: "table_all P t \<Longrightarrow> table_all P (destroy_pk t k)"
  by (auto simp: table_all_def destroy_pk_def list_all_iff)

lemma table_all_tmap: "table_all P t \<Longrightarrow> tmap t k = Some x \<Longrightarrow> P x"
  by (auto simp: table_all_def tmap_def list_all_iff dest: map_of_SomeD)

lemma table_all_mono: "table_all P t \<Longrightarrow> (\<And>x. P x \<Longrightarrow> Q x) \<Longrightarrow> table_all Q t"
  by (auto simp: table_all_def list_all_iff)

lemmas table_all_intros = table_all_empty table_all_create table_all_update_pk table_all_destroy_pk

lemmas table_tmap_simps [model_simps] = tmap_create tmap_update_pk tmap_destroy_pk
lemmas table_wf_intros = create_wf update_pk_wf destroy_pk_wf table_wf_empty

end
