(* ===== verification/Models.thy ===== *)
theory Models
  imports Dates Table
begin

text \<open>
  The rows of the five tables (\<open>src/app/models\<close>: only \<open>Plan.js\<close> is in the
  repository; the other models follow the columns the controllers read and write), the
  mail a controller hands to \<open>Mail.sendMail\<close>, and the database state all handlers
  share: one table per model and the list of mails sent so far, in order.
\<close>

record student =
  name :: string
  email :: string

record plan =
  title :: string
  duration :: int
  price :: rat

text \<open>\<open>Plan.calculateTotalPrice()\<close>: \<open>this.price * this.duration\<close>.\<close>

definition calculate_total_price :: "plan \<Rightarrow> rat" where
  "calculate_total_price p = price p * of_int (duration p)"

record enrollment =
  enr_student_id :: pk
  enr_plan_id :: pk
  start_date :: date
  end_date :: date
  enr_price :: rat

record checkin =
  chk_student_id :: pk
  created_at :: timestamp

record help_order =
  ho_student_id :: pk
  question :: string
  answer :: "string option"
  answer_at :: "timestamp option"

text \<open>
  A mail: the recipient line, the subject, the template name and the template context, a
  list of named values that are strings or numbers.
\<close>

datatype cval = CStr string | CInt int

record mail =
  mail_to :: string
  mail_subject :: string
  mail_template :: string
  mail_context :: "(string \<times> cval) list"

record db =
  students :: "student table"
  plans :: "plan table"
  enrollments :: "enrollment table"
  checkins :: "checkin table"
  help_orders :: "help_order table"
  outbox :: "mail list"

definition empty_db :: db where
  "empty_db =
     \<lparr>students = empty_table, plans = empty_table, enrollments = empty_table,
      checkins = empty_table, help_orders = empty_table, outbox = []\<rparr>"

text \<open>The recipient line \<open>`${student.name} <${student.email}>`\<close>.\<close>

definition mail_recipient :: "student \<Rightarrow> string" where
  "mail_recipient st = name st @ '' <'' @ email st @ ''>''"

text \<open>A sample state for the witnesses: one student, key 1, and nothing else.\<close>

definition demo_db :: db where
  "demo_db =
     empty_db\<lparr>students := \<lparr>rows = [(1, \<lparr>name = ''Ana'', email = ''ana@example.com''\<rparr>)], next_pk = 2\<rparr>\<rparr>"

text \<open>The same with one plan, key 1: three months at 100 a month.\<close>

definition demo_plan :: plan where
  "demo_plan = \<lparr>title = ''Gold'', duration = 3, price = 100\<rparr>"

definition demo_gym :: db where
  "demo_gym = demo_db\<lparr>plans := \<lparr>rows = [(1, demo_plan)], next_pk = 2\<rparr>\<rparr>"

text \<open>The same with one enrollment of student 1 in plan 1, key 1.\<close>

definition demo_enrollment :: enrollment where
  "demo_enrollment =
     \<lparr>enr_student_id = 1, enr_plan_id = 1, start_date = \<lparr>year = 2023, month = 1, day = 31\<rparr>,
      end_date = \<lparr>year = 2023, month = 4, day = 30\<rparr>, enr_price = 300\<rparr>"

definition demo_enrolled :: db where
  "demo_enrolled = demo_gym\<lparr>enrollments := \<lparr>rows = [(1, demo_enrollment)], next_pk = 2\<rparr>\<rparr>"

text \<open>The student of \<open>demo_db\<close> with one open question, key 1, and one of student 7.\<close>

definition demo_question :: help_order where
  "demo_question = \<lparr>ho_student_id = 1, question = ''Opening hours?'', answer = None, answer_at = None\<rparr>"

definition demo_help :: db where
  "demo_help =
     demo_db\<lparr>help_orders := \<lparr>rows = [(1, demo_question), (2, demo_question\<lparr>ho_student_id := 7\<rparr>)],
                               next_pk = 3\<rparr>\<rparr>"

lemma demo_db_simps [model_simps]:
  "students demo_db = \<lparr>rows = [(1, \<lparr>name = ''Ana'', email = ''ana@example.com''\<rparr>)], next_pk = 2\<rparr>"
  "plans demo_db = empty_table" "enrollments demo_db = empty_table"
  "checkins demo_db = empty_table" "help_orders demo_db = empty_table" "outbox demo_db = []"
  by (simp_all add: demo_db_def empty_db_def)

lemma demo_gym_simps [model_simps]:
  "students demo_gym = students demo_db" "plans demo_gym = \<lparr>rows = [(1, demo_plan)], next_pk = 2\<rparr>"
  "enrollments demo_gym = empty_table" "checkins demo_gym = empty_table"
  "help_orders demo_gym = empty_table" "outbox demo_gym = []"
  by (simp_all add: demo_gym_def demo_db_simps)

lemma demo_help_simps [model_simps]:
  "students demo_help = students demo_db" "plans demo_help = empty_table"
  "enrollments demo_help = empty_table" "checkins demo_help = empty_table"
  "help_orders demo_help =
     \<lparr>rows = [(1, demo_question), (2, demo_question\<lparr>ho_student_id := 7\<rparr>)], next_pk = 3\<rparr>"
  "outbox demo_help = []"
  by (simp_all add: demo_help_def model_simps)

lemma demo_enrolled_simps [model_simps]:
  "students demo_enrolled = students demo_db" "plans demo_enrolled = plans demo_gym"
  "enrollments demo_enrolled = \<lparr>rows = [(1, demo_enrollment)], next_pk = 2\<rparr>"
  "checkins demo_enrolled = empty_table" "help_orders demo_enrolled = empty_table"
  "outbox demo_enrolled = []"
  by (simp_all add: demo_enrolled_def model_simps)

end
