(* ===== verification/CheckinCtl.thy ===== *)
theory CheckinCtl
  imports Models
begin

text \<open>
  \<open>src/app/controllers/CheckinController.js\<close>: listing a student's check-ins and
  creating one, at most five per trailing week. \<open>store\<close> reads (the student, then the
  check-ins since \<open>subWeeks(new Date(), 1)\<close>) and then writes (\<open>Checkin.create\<close>), with
  awaits between; the model keeps the two phases as \<open>checkin_read\<close> and
  \<open>checkin_write\<close>, and \<open>checkin_store\<close> runs them back to back as one request does.
  Requests that overlap run the phases interleaved, which the last section uses.
\<close>

text \<open>The check-ins of a student created since \<open>subWeeks(now, 1)\<close> (\<open>Op.gte\<close>).\<close>

definition recent_checkins :: "db \<Rightarrow> pk \<Rightarrow> timestamp \<Rightarrow> (pk \<times> checkin) list" where
  "recent_checkins s sid now =
     find_all (checkins s) (\<lambda>c. chk_student_id c = sid \<and> sub_weeks now 1 \<le> created_at c)"

definition checkin_index :: "db \<Rightarrow> pk \<Rightarrow> (pk \<times> checkin) list res" where
  "checkin_index s sid =
     (case find_pk (students s) sid of
        None \<Rightarrow> Inl (Http_error 401 ''Student not found'')
      | Some _ \<Rightarrow> Inr (find_all (checkins s) (\<lambda>c. chk_student_id c = sid)))"

text \<open>The read phase: \<open>None\<close> when the student does not exist, else the count.\<close>

definition checkin_read :: "db \<Rightarrow> timestamp \<Rightarrow> pk \<Rightarrow> nat option" where
  "checkin_read s now sid =
     (case find_pk (students s) sid of
        None \<Rightarrow> None
      | Some _ \<Rightarrow> Some (length (recent_checkins s sid now)))"

abbreviation checkin_limit_error :: http_error where
  "checkin_limit_error \<equiv>
     Http_error 401 ''Student does not able to check in more than 5 times in the week''"

definition checkin_write ::
  "db \<Rightarrow> timestamp \<Rightarrow> pk \<Rightarrow> nat option \<Rightarrow> (pk \<times> checkin) res \<times> db" where
  "checkin_write s now sid r =
     (case r of
        None \<Rightarrow> (Inl (Http_error 401 ''Student not found''), s)
      | Some n \<Rightarrow>
          if n \<ge> 5 then (Inl checkin_limit_error, s)
          else let c = \<lparr>chk_student_id = sid, created_at = now\<rparr>;
                   (k, t) = create (checkins s) c
               in (Inr (k, c), s\<lparr>checkins := t\<rparr>))"

definition checkin_store :: "db \<Rightarrow> timestamp \<Rightarrow> pk \<Rightarrow> (pk \<times> checkin) res \<times> db" where
  "checkin_store s now sid = checkin_write s now sid (checkin_read s now sid)"

text \<open>
  What the limit promises over time: in every closed window of one week, at most five
  check-ins of a student; and no check-in lies after the clock.
\<close>

definition week_count :: "db \<Rightarrow> pk \<Rightarrow> timestamp \<Rightarrow> nat" where
  "week_count s sid T =
     length (filter (\<lambda>(_, c). chk_student_id c = sid \<and> T - week_ms \<le> created_at c \<and> created_at c \<le> T)
       (rows (checkins s)))"

definition weekly_ok :: "db \<Rightarrow> bool" where
  "weekly_ok s \<longleftrightarrow> (\<forall>sid T. week_count s sid T \<le> 5)"

definition checkins_before :: "db \<Rightarrow> timestamp \<Rightarrow> bool" where
  "checkins_before s t \<longleftrightarrow> table_all (\<lambda>c. created_at c \<le> t) (checkins s)"

subsection \<open>Evaluation rules\<close>

lemma checkin_store_no_student [model_simps]:
  "find_pk (students s) sid = None \<Longrightarrow>
   checkin_store s now sid = (Inl (Http_error 401 ''Student not found''), s)"
  by (simp add: checkin_store_def checkin_read_def checkin_write_def)

lemma checkin_store_full [model_simps]:
  "find_pk (students s) sid = Some st \<Longrightarrow> 5 \<le> length (recent_checkins s sid now) \<Longrightarrow>
   checkin_store s now sid = (Inl checkin_limit_error, s)"
  by (simp add: checkin_store_def checkin_read_def checkin_write_def)

lemma checkin_store_ok [model_simps]:
  "find_pk (students s) sid = Some st \<Longrightarrow> length (recent_checkins s sid now) < 5 \<Longrightarrow>
   checkin_store s now sid =
     (Inr (next_pk (checkins s), \<lparr>chk_student_id = sid, created_at = now\<rparr>),
      s\<lparr>checkins := snd (create (checkins s) \<lparr>chk_student_id = sid, created_at = now\<rparr>)\<rparr>)"
  by (simp add: checkin_store_def checkin_read_def checkin_write_def create_def Let_def)

lemma recent_checkins_create:
  "recent_checkins (s\<lparr>checkins := snd (create (checkins s) c)\<rparr>) sid now =
   recent_checkins s sid now @
     (if chk_student_id c = sid \<and> sub_weeks now 1 \<le> created_at c then [(next_pk (checkins s), c)]
      else [])"
  by (simp add: recent_checkins_def find_all_def create_def)

lemma checkin_store_frame:
  "snd (checkin_store s now sid) = s\<lparr>checkins := checkins (snd (checkin_store s now sid))\<rparr>"
  by (cases "find_pk (students s) sid")
     (auto simp: checkin_store_def checkin_read_def checkin_write_def Let_def split: prod.splits)

lemma checkin_store_frames [frame_simps]:
  "students (snd (checkin_store s now sid)) = students s"
  "plans (snd (checkin_store s now sid)) = plans s"
  "enrollments (snd (checkin_store s now sid)) = enrollments s"
  "help_orders (snd (checkin_store s now sid)) = help_orders s"
  "outbox (snd (checkin_store s now sid)) = outbox s"
  by (subst checkin_store_frame, simp)+

lemma sub_weeks_one_le [simp]: "sub_weeks now 1 \<le> now"
  by (simp add: sub_weeks_def week_ms_def)

lemma checkin_write_ok:
  "n < 5 \<Longrightarrow>
   checkin_write s now sid (Some n) =
     (Inr (next_pk (checkins s), \<lparr>chk_student_id = sid, created_at = now\<rparr>),
      s\<lparr>checkins := snd (create (checkins s) \<lparr>chk_student_id = sid, created_at = now\<rparr>)\<rparr>)"
  by (simp add: checkin_write_def create_def Let_def)

lemma recent_checkins_after_ok:
  "length (recent_checkins
      (s\<lparr>checkins := snd (create (checkins s) \<lparr>chk_student_id = sid, created_at = now\<rparr>)\<rparr>) sid now) =
   Suc (length (recent_checkins s sid now))"
  by (simp add: recent_checkins_create)

lemma checkin_read_students [simp]:
  "students s' = students s \<Longrightarrow> find_pk (students s) sid = Some st \<Longrightarrow>
   checkin_read s' now sid = Some (length (recent_checkins s' sid now))"
  by (simp add: checkin_read_def)

subsection \<open>The weekly limit over time\<close>

lemma week_count_le_recent:
  assumes "T - week_ms \<le> now" "now \<le> T"
  shows "week_count s sid T \<le> length (recent_checkins s sid now)"
  unfolding week_count_def recent_checkins_def find_all_def
proof (rule length_filter_mono_pred)
  fix x assume "x \<in> set (rows (checkins s))"
    and "(\<lambda>(_, c). chk_student_id c = sid \<and> T - week_ms \<le> created_at c \<and> created_at c \<le> T) x"
  with assms show "(\<lambda>(_, c). chk_student_id c = sid \<and> sub_weeks now 1 \<le> created_at c) x"
    by (auto simp: sub_weeks_def)
qed

lemma week_count_create:
  "week_count (s\<lparr>checkins := snd (create (checkins s) c)\<rparr>) sid T =
   week_count s sid T +
     (if chk_student_id c = sid \<and> T - week_ms \<le> created_at c \<and> created_at c \<le> T then 1 else 0)"
  by (simp add: week_count_def create_def)

lemma checkins_before_mono: "checkins_before s t \<Longrightarrow> t \<le> t' \<Longrightarrow> checkins_before s t'"
  unfolding checkins_before_def by (erule table_all_mono) simp

lemma checkin_store_cases:
  "snd (checkin_store s now sid) = s \<or>
   (length (recent_checkins s sid now) < 5 \<and>
    snd (checkin_store s now sid) =
      s\<lparr>checkins := snd (create (checkins s) \<lparr>chk_student_id = sid, created_at = now\<rparr>)\<rparr>)"
proof (cases "find_pk (students s) sid")
  case None
  then show ?thesis by (simp add: checkin_store_no_student)
next
  case (Some st)
  then show ?thesis
    by (cases "length (recent_checkins s sid now) < 5") (simp_all add: checkin_store_ok checkin_store_full)
qed

lemma checkin_store_weekly_ok:
  assumes "weekly_ok s"
  shows "weekly_ok (snd (checkin_store s now sid))"
proof (cases "snd (checkin_store s now sid) = s")
  case True
  with assms show ?thesis by simp
next
  case False
  with checkin_store_cases [of s now sid]
  have lt: "length (recent_checkins s sid now) < 5"
    and eq: "snd (checkin_store s now sid) =
               s\<lparr>checkins := snd (create (checkins s) \<lparr>chk_student_id = sid, created_at = now\<rparr>)\<rparr>"
    by auto
  show ?thesis
    unfolding weekly_ok_def
  proof (intro allI)
    fix sid' T
    show "week_count (snd (checkin_store s now sid)) sid' T \<le> 5"
    proof (cases "sid' = sid \<and> T - week_ms \<le> now \<and> now \<le> T")
      case True
      then have "week_count s sid' T \<le> length (recent_checkins s sid now)"
        using week_count_le_recent by blast
      with True lt show ?thesis by (simp add: eq week_count_create)
    next
      case False
      with assms show ?thesis
        by (auto simp: eq week_count_create weekly_ok_def)
    qed
  qed
qed

lemma checkin_store_before:
  assumes "checkins_before s t" "t \<le> now"
  shows "checkins_before (snd (checkin_store s now sid)) now"
proof -
  have b: "checkins_before s now" using assms by (rule checkins_before_mono)
  from checkin_store_cases [of s now sid] show ?thesis
  proof
    assume "snd (checkin_store s now sid) = s"
    with b show ?thesis by simp
  next
    assume "length (recent_checkins s sid now) < 5 \<and>
      snd (checkin_store s now sid) =
        s\<lparr>checkins := snd (create (checkins s) \<lparr>chk_student_id = sid, created_at = now\<rparr>)\<rparr>"
    with b show ?thesis by (simp add: checkins_before_def table_all_create)
  qed
qed

lemma checkin_store_wf: "table_wf (checkins s) \<Longrightarrow> table_wf (checkins (snd (checkin_store s now sid)))"
  by (simp add: checkin_store_def checkin_write_def Let_def split_def create_wf split: option.split)

subsection \<open>The weekly limit of one request\<close>

text \<open>
  C1: a check-in request of an existing student is rejected exactly when the student
  already has five or more check-ins created since one week before now; an accepted one
  adds exactly one check-in to that window, a rejected one changes nothing.
\<close>

theorem checkin_store_limit:
  assumes "find_pk (students s) sid = Some st"
  shows "isl (fst (checkin_store s now sid)) = (5 \<le> length (recent_checkins s sid now)) \<and>
         length (recent_checkins (snd (checkin_store s now sid)) sid now) =
           (if length (recent_checkins s sid now) < 5
            then Suc (length (recent_checkins s sid now)) else length (recent_checkins s sid now))"
proof (cases "length (recent_checkins s sid now) < 5")
  case True
  with assms show ?thesis by (simp add: checkin_store_ok recent_checkins_after_ok)
next
  case False
  with assms show ?thesis by (simp add: checkin_store_full)
qed

text \<open>
  C3: the window of the limit includes its lower end: a check-in of the student created
  exactly \<open>7 * 24 * 60 * 60 * 1000\<close> milliseconds before now is counted (the query
  uses \<open>Op.gte\<close>), one created a millisecond earlier is not.
\<close>

theorem recent_checkins_window:
  assumes "(k, c) \<in> set (rows (checkins s))"
  shows "(k, c) \<in> set (recent_checkins s sid now) \<longleftrightarrow>
         chk_student_id c = sid \<and> now - 604800000 \<le> created_at c"
  using assms by (auto simp: recent_checkins_def find_all_def sub_weeks_def week_ms_def)

subsection \<open>Overlapping requests\<close>

text \<open>
  C2: two check-in requests of the same student that overlap, both reading before
  either writes, both pass the check when the student has four check-ins in the window,
  and leave six: the read-then-write sequence is not atomic, so the limit holds only
  for requests that do not overlap.
\<close>

theorem checkin_interleaved_exceeds_limit:
  assumes "find_pk (students s) sid = Some st"
    and "length (recent_checkins s sid now) = 4"
    and "r = checkin_read s now sid"
    and "s1 = snd (checkin_write s now sid r)"
  shows "\<not> isl (fst (checkin_write s now sid r)) \<and> \<not> isl (fst (checkin_write s1 now sid r)) \<and>
         length (recent_checkins (snd (checkin_write s1 now sid r)) sid now) = 6"
proof -
  from assms(1-3) have r: "r = Some 4" by (simp add: checkin_read_def)
  then have s1: "s1 = s\<lparr>checkins := snd (create (checkins s) \<lparr>chk_student_id = sid, created_at = now\<rparr>)\<rparr>"
    using assms(4) by (simp add: checkin_write_ok)
  have n1: "length (recent_checkins s1 sid now) = 5"
    using s1 assms(2) recent_checkins_after_ok [of s sid now] by simp
  have w2: "checkin_write s1 now sid r =
    (Inr (next_pk (checkins s1), \<lparr>chk_student_id = sid, created_at = now\<rparr>),
     s1\<lparr>checkins := snd (create (checkins s1) \<lparr>chk_student_id = sid, created_at = now\<rparr>)\<rparr>)"
    using r by (simp add: checkin_write_ok)
  show ?thesis
    using r s1 w2 n1 recent_checkins_after_ok [of s1 sid now] by (simp add: checkin_write_ok)
qed

subsection \<open>Witnesses\<close>

lemma demo_student_1: "find_pk (students demo_db) 1 = Some \<lparr>name = ''Ana'', email = ''ana@example.com''\<rparr>"
  by (simp add: find_pk_def demo_db_simps)

theorem checkin_store_limit_witness:
  "\<not> isl (fst (checkin_store demo_db 0 1)) \<and>
   length (recent_checkins (snd (checkin_store demo_db 0 1)) 1 0) = 1"
  using checkin_store_limit [OF demo_student_1, of 0]
  by (simp add: recent_checkins_def find_all_def demo_db_simps empty_table_def)

theorem recent_checkins_window_witness:
  "(1, \<lparr>chk_student_id = 1, created_at = -604800000\<rparr>)
     \<in> set (recent_checkins (demo_db\<lparr>checkins :=
          \<lparr>rows = [(1, \<lparr>chk_student_id = 1, created_at = -604800000\<rparr>)], next_pk = 2\<rparr>\<rparr>) 1 0)"
  using recent_checkins_window [of 1 "\<lparr>chk_student_id = 1, created_at = -604800000\<rparr>"
      "demo_db\<lparr>checkins := \<lparr>rows = [(1, \<lparr>chk_student_id = 1, created_at = -604800000\<rparr>)], next_pk = 2\<rparr>\<rparr>"
      1 0]
  by simp

theorem checkin_interleaved_witness:
  "length (recent_checkins
     (snd (checkin_write
        (snd (checkin_write (demo_db\<lparr>checkins := \<lparr>rows = [(1, \<lparr>chk_student_id = 1, created_at = 0\<rparr>),
            (2, \<lparr>chk_student_id = 1, created_at = 0\<rparr>), (3, \<lparr>chk_student_id = 1, created_at = 0\<rparr>),
            (4, \<lparr>chk_student_id = 1, created_at = 0\<rparr>)], next_pk = 5\<rparr>\<rparr>) 0 1 (Some 4)))
        0 1 (Some 4))) 1 0) = 6"
proof -
  let ?c = "\<lparr>chk_student_id = 1, created_at = 0\<rparr>"
  let ?s = "demo_db\<lparr>checkins := \<lparr>rows = [(1, ?c), (2, ?c), (3, ?c), (4, ?c)], next_pk = 5\<rparr>\<rparr>"
  have st: "find_pk (students ?s) 1 = Some \<lparr>name = ''Ana'', email = ''ana@example.com''\<rparr>"
    by (simp add: find_pk_def demo_db_simps)
  have four: "length (recent_checkins ?s 1 0) = 4"
    by (simp add: recent_checkins_def find_all_def sub_weeks_def week_ms_def)
  have rd: "checkin_read ?s 0 1 = Some 4"
    using st four by (simp add: checkin_read_def)
  show ?thesis
    using checkin_interleaved_exceeds_limit [OF st four rd [symmetric] refl] by simp
qed

end
