(* ===== verification/EnrollmentCtl.thy ===== *)
theory EnrollmentCtl
  imports Models
begin

text \<open>
  \<open>src/app/controllers/EnrollmentController.js\<close>: listing, creating, updating and
  deleting enrollments. Creation and update validate the body with a Yup schema, look up
  the student and the plan in that order, snapshot the plan's total price and compute
  the end date with \<open>addMonths\<close>; creation also sends the enrollment mail. A JSON
  number of the body is a rational, a missing field \<open>None\<close>; a date field is one of the
  three kinds of string \<open>Dates.date_in\<close> distinguishes.
\<close>

record enrollment_body =
  eb_student_id :: "rat option"
  eb_plan_id :: "rat option"
  eb_start_date :: "date_in option"

text \<open>The schemas of \<open>store\<close> (lines 16--24) and \<open>update\<close> (lines 80--84).\<close>

definition store_schema :: "enrollment_body \<Rightarrow> bool" where
  "store_schema b \<longleftrightarrow>
     req_int (eb_student_id b) \<and> req_int (eb_plan_id b) \<and>
     (case eb_start_date b of None \<Rightarrow> False | Some d \<Rightarrow> yup_date d)"

definition update_schema :: "enrollment_body \<Rightarrow> bool" where
  "update_schema b \<longleftrightarrow>
     opt_int (eb_student_id b) \<and> opt_int (eb_plan_id b) \<and>
     (case eb_start_date b of None \<Rightarrow> True | Some d \<Rightarrow> yup_date d)"

text \<open>The key a body field names; used only after \<open>findByPk\<close> found a row for it.\<close>

definition body_pk :: "rat option \<Rightarrow> pk" where
  "body_pk v = (case v of None \<Rightarrow> 0 | Some r \<Rightarrow> \<lfloor>r\<rfloor>)"

text \<open>The enrollment mail of \<open>store\<close>.\<close>

definition enrollment_mail :: "student \<Rightarrow> plan \<Rightarrow> date \<Rightarrow> date \<Rightarrow> rat \<Rightarrow> mail" where
  "enrollment_mail st p sd ed pr =
     \<lparr>mail_to = mail_recipient st,
      mail_subject = ''Gympoint - '' @ title p @ '' Plan Enrollment'',
      mail_template = ''enrollment'',
      mail_context =
        [(''studentName'', CStr (name st)), (''totalMonths'', CInt (duration p)),
         (''planTitle'', CStr (title p)), (''startDate'', CStr (format_mdy sd)),
         (''endDate'', CStr (format_mdy ed)), (''price'', CStr (to_fixed2 pr))]\<rparr>"

definition enrollment_index :: "db \<Rightarrow> (pk \<times> enrollment) list" where
  "enrollment_index s = rows (enrollments s)"

text \<open>
  \<open>store\<close>. A start date that \<open>Yup.date()\<close> accepts but \<open>parseISO\<close> does not gives
  \<open>Invalid Date\<close>; \<open>Enrollment.create\<close> then fails in the database and the request
  ends in the error handler, before the mail is sent.
\<close>

definition enrollment_store :: "db \<Rightarrow> enrollment_body \<Rightarrow> (pk \<times> enrollment) res \<times> db" where
  "enrollment_store s b =
     (if \<not> store_schema b then (Inl validation_fails, s)
      else case find_by_pk (students s) (eb_student_id b) of
        None \<Rightarrow> (Inl (Http_error 401 ''Student not found''), s)
      | Some st \<Rightarrow>
          (case find_by_pk (plans s) (eb_plan_id b) of
             None \<Rightarrow> (Inl (Http_error 401 ''Plan not found''), s)
           | Some p \<Rightarrow>
               let pr = calculate_total_price p
               in (case parse_iso (eb_start_date b) of
                     None \<Rightarrow> (Inl Server_error, s)
                   | Some sd \<Rightarrow>
                       let ed = add_months sd (duration p);
                           e = \<lparr>enr_student_id = body_pk (eb_student_id b),
                                enr_plan_id = body_pk (eb_plan_id b),
                                start_date = sd, end_date = ed, enr_price = pr\<rparr>;
                           (k, t) = create (enrollments s) e
                       in (Inr (k, e),
                           s\<lparr>enrollments := t,
                             outbox := outbox s @ [enrollment_mail st p sd ed pr]\<rparr>))))"

text \<open>
  \<open>update\<close> re-resolves the student and the plan from the body, whatever the
  enrollment held before: a body without \<open>student_id\<close> or \<open>plan_id\<close> passes the
  schema and then finds no row (\<open>findByPk(undefined)\<close> is \<open>null\<close>).
\<close>

definition enrollment_update ::
  "db \<Rightarrow> pk \<Rightarrow> enrollment_body \<Rightarrow> (pk \<times> enrollment) res \<times> db" where
  "enrollment_update s k b =
     (if \<not> update_schema b then (Inl validation_fails, s)
      else case find_pk (enrollments s) k of
        None \<Rightarrow> (Inl (Http_error 401 ''Enrollment not found''), s)
      | Some _ \<Rightarrow>
          (case find_by_pk (students s) (eb_student_id b) of
             None \<Rightarrow> (Inl (Http_error 401 ''Student not found''), s)
           | Some _ \<Rightarrow>
               (case find_by_pk (plans s) (eb_plan_id b) of
                  None \<Rightarrow> (Inl (Http_error 401 ''Plan not found''), s)
                | Some p \<Rightarrow>
                    (case parse_iso (eb_start_date b) of
                       None \<Rightarrow> (Inl Server_error, s)
                     | Some sd \<Rightarrow>
                         let e = \<lparr>enr_student_id = body_pk (eb_student_id b),
                                  enr_plan_id = body_pk (eb_plan_id b),
                                  start_date = sd, end_date = add_months sd (duration p),
                                  enr_price = calculate_total_price p\<rparr>
                         in (Inr (k, e),
                             s\<lparr>enrollments := update_pk (enrollments s) k (\<lambda>_. e)\<rparr>)))))"

definition enrollment_delete :: "db \<Rightarrow> pk \<Rightarrow> unit res \<times> db" where
  "enrollment_delete s k =
     (case find_pk (enrollments s) k of
        None \<Rightarrow> (Inl (Http_error 400 ''Enrollment not found''), s)
      | Some _ \<Rightarrow> (Inr (), s\<lparr>enrollments := destroy_pk (enrollments s) k\<rparr>))"

text \<open>The row a successful \<open>store\<close> creates, as the contract states it.\<close>

definition new_enrollment :: "pk \<Rightarrow> pk \<Rightarrow> plan \<Rightarrow> date \<Rightarrow> enrollment" where
  "new_enrollment sid pid p sd =
     \<lparr>enr_student_id = sid, enr_plan_id = pid, start_date = sd,
      end_date = add_months sd (duration p), enr_price = price p * of_int (duration p)\<rparr>"

subsection \<open>Evaluation rules\<close>

lemma body_pk_of_int [model_simps]: "body_pk (Some (of_int k)) = k"
  by (simp add: body_pk_def)

lemma store_schema_iff:
  "store_schema b \<longleftrightarrow>
     req_int (eb_student_id b) \<and> req_int (eb_plan_id b) \<and>
     (\<exists>d. eb_start_date b = Some d \<and> yup_date d)"
  by (simp add: store_schema_def split: option.split)

lemma enrollment_store_ok:
  assumes "eb_student_id b = Some (of_int sid)" "eb_plan_id b = Some (of_int pid)"
    and "eb_start_date b = Some (Iso_date sd)" "valid_date sd"
    and "find_pk (students s) sid = Some st" "find_pk (plans s) pid = Some p"
  shows "enrollment_store s b =
    (Inr (next_pk (enrollments s), new_enrollment sid pid p sd),
     s\<lparr>enrollments := snd (create (enrollments s) (new_enrollment sid pid p sd)),
       outbox := outbox s @ [enrollment_mail st p sd (add_months sd (duration p))
                                (price p * of_int (duration p))]\<rparr>)"
  using assms
  by (simp add: enrollment_store_def store_schema_def model_simps create_def Let_def
                new_enrollment_def calculate_total_price_def)

lemma enrollment_store_fails_unchanged:
  "isl (fst (enrollment_store s b)) \<Longrightarrow> snd (enrollment_store s b) = s"
  by (auto simp: enrollment_store_def Let_def split: if_splits option.splits prod.splits)

lemma enrollment_update_ok:
  assumes "find_pk (enrollments s) k = Some old"
    and "eb_student_id b = Some (of_int sid)" "eb_plan_id b = Some (of_int pid)"
    and "eb_start_date b = Some (Iso_date sd)" "valid_date sd"
    and "find_pk (students s) sid = Some st" "find_pk (plans s) pid = Some p"
  shows "enrollment_update s k b =
    (Inr (k, new_enrollment sid pid p sd),
     s\<lparr>enrollments := update_pk (enrollments s) k (\<lambda>_. new_enrollment sid pid p sd)\<rparr>)"
  using assms
  by (simp add: enrollment_update_def update_schema_def model_simps Let_def
                new_enrollment_def calculate_total_price_def)

subsection \<open>Frame and well-formedness\<close>

lemma enrollment_frames [frame_simps]:
  "students (snd (enrollment_store s b)) = students s" "plans (snd (enrollment_store s b)) = plans s"
  "checkins (snd (enrollment_store s b)) = checkins s"
  "help_orders (snd (enrollment_store s b)) = help_orders s"
  "students (snd (enrollment_update s k b)) = students s" "plans (snd (enrollment_update s k b)) = plans s"
  "checkins (snd (enrollment_update s k b)) = checkins s"
  "help_orders (snd (enrollment_update s k b)) = help_orders s"
  "outbox (snd (enrollment_update s k b)) = outbox s"
  "students (snd (enrollment_delete s k)) = students s" "plans (snd (enrollment_delete s k)) = plans s"
  "checkins (snd (enrollment_delete s k)) = checkins s"
  "help_orders (snd (enrollment_delete s k)) = help_orders s"
  "outbox (snd (enrollment_delete s k)) = outbox s"
  by (simp_all add: enrollment_store_def enrollment_update_def enrollment_delete_def Let_def split_def
               split: option.split)

lemma enrollment_store_outbox:
  "outbox (snd (enrollment_store s b)) = outbox s \<or>
   (\<not> isl (fst (enrollment_store s b)) \<and>
    (\<exists>k st m. tmap (students s) k = Some st \<and> mail_to m = mail_recipient st \<and>
       outbox (snd (enrollment_store s b)) = outbox s @ [m]))"
  by (auto simp: enrollment_store_def find_by_pk_def enrollment_mail_def model_simps Let_def
           split: option.splits prod.splits if_splits)

lemma enrollment_handlers_wf:
  assumes "table_wf (enrollments s)"
  shows "table_wf (enrollments (snd (enrollment_store s b)))"
    "table_wf (enrollments (snd (enrollment_update s k b)))"
    "table_wf (enrollments (snd (enrollment_delete s k)))"
  using assms
  by (simp_all add: enrollment_store_def enrollment_update_def enrollment_delete_def Let_def split_def
                    create_wf update_pk_wf destroy_pk_wf split: option.split)

text \<open>
  C4: for an existing student and plan and a valid ISO start date, \<open>store\<close> creates one
  enrollment under a fresh key whose price is the plan's monthly price times its
  duration and whose end date is the start date moved on by the duration in months,
  and sends one mail to the student carrying exactly these values.
\<close>

theorem enrollment_store_contract:
  assumes "table_wf (enrollments s)"
    and "eb_student_id b = Some (of_int sid)" "eb_plan_id b = Some (of_int pid)"
    and "eb_start_date b = Some (Iso_date sd)" "valid_date sd"
    and "find_pk (students s) sid = Some st" "find_pk (plans s) pid = Some p"
  shows "\<exists>k e. fst (enrollment_store s b) = Inr (k, e) \<and>
           tmap (enrollments s) k = None \<and>
           tmap (enrollments (snd (enrollment_store s b))) = (tmap (enrollments s))(k \<mapsto> e) \<and>
           enr_student_id e = sid \<and> enr_plan_id e = pid \<and> start_date e = sd \<and>
           enr_price e = price p * of_int (duration p) \<and>
           end_date e = add_months sd (duration p) \<and>
           outbox (snd (enrollment_store s b)) =
             outbox s @ [enrollment_mail st p sd (end_date e) (enr_price e)]"
proof -
  have eq: "enrollment_store s b =
    (Inr (next_pk (enrollments s), new_enrollment sid pid p sd),
     s\<lparr>enrollments := snd (create (enrollments s) (new_enrollment sid pid p sd)),
       outbox := outbox s @ [enrollment_mail st p sd (add_months sd (duration p))
                                (price p * of_int (duration p))]\<rparr>)"
    using assms(2-7) by (rule enrollment_store_ok)
  show ?thesis
    using assms(1) table_wf_fresh [OF assms(1)]
    by (simp add: eq tmap_create new_enrollment_def)
qed

text \<open>
  C6: the errors of \<open>store\<close>, in the order the code checks: a body that fails the
  schema gets 400 \<open>Validation fails\<close> (a non-integer id included, before any lookup);
  a valid body whose student is not found gets 401 \<open>Student not found\<close>; one whose
  plan is not found, 401 \<open>Plan not found\<close>; one whose date \<open>parseISO\<close> rejects, a
  server error. None of them writes or mails anything, and these are the only failures.
\<close>

theorem enrollment_store_errors:
  "(\<not> store_schema b \<longrightarrow> enrollment_store s b = (Inl validation_fails, s)) \<and>
   (store_schema b \<and> find_by_pk (students s) (eb_student_id b) = None \<longrightarrow>
      enrollment_store s b = (Inl (Http_error 401 ''Student not found''), s)) \<and>
   (store_schema b \<and> find_by_pk (students s) (eb_student_id b) \<noteq> None \<and>
    find_by_pk (plans s) (eb_plan_id b) = None \<longrightarrow>
      enrollment_store s b = (Inl (Http_error 401 ''Plan not found''), s)) \<and>
   (store_schema b \<and> find_by_pk (students s) (eb_student_id b) \<noteq> None \<and>
    find_by_pk (plans s) (eb_plan_id b) \<noteq> None \<and> parse_iso (eb_start_date b) = None \<longrightarrow>
      enrollment_store s b = (Inl Server_error, s)) \<and>
   (isl (fst (enrollment_store s b)) \<longleftrightarrow>
     \<not> store_schema b \<or> find_by_pk (students s) (eb_student_id b) = None \<or>
     find_by_pk (plans s) (eb_plan_id b) = None \<or> parse_iso (eb_start_date b) = None)"
  by (auto simp: enrollment_store_def Let_def split: option.splits prod.splits)

text \<open>
  C7: a start date that \<open>Yup.date()\<close> accepts but \<open>parseISO\<close> rejects (any
  non-ISO form such as \<open>"01/31/2023"\<close>) passes validation and the lookups, and the
  request then fails with a server error instead of a validation error.
\<close>

theorem enrollment_store_non_iso_date:
  assumes "eb_student_id b = Some (of_int sid)" "eb_plan_id b = Some (of_int pid)"
    and "eb_start_date b = Some (Non_iso_date d)"
    and "find_pk (students s) sid = Some st" "find_pk (plans s) pid = Some p"
  shows "store_schema b \<and> enrollment_store s b = (Inl Server_error, s)"
  using assms by (simp add: enrollment_store_def store_schema_def model_simps)

text \<open>
  C8: the example of the contract: a three-month plan at 100 a month, starting on
  2023-01-31, gives the price 300, the end date 2023-04-30 (the 31st clamped to the end
  of April), and a mail that shows \<open>04/30/2023\<close> and \<open>300.00\<close>.
\<close>

theorem enrollment_store_example:
  "enrollment_store demo_gym
     \<lparr>eb_student_id = Some 1, eb_plan_id = Some 1,
      eb_start_date = Some (Iso_date \<lparr>year = 2023, month = 1, day = 31\<rparr>)\<rparr> =
   (Inr (1, \<lparr>enr_student_id = 1, enr_plan_id = 1, start_date = \<lparr>year = 2023, month = 1, day = 31\<rparr>,
             end_date = \<lparr>year = 2023, month = 4, day = 30\<rparr>, enr_price = 300\<rparr>),
    demo_gym\<lparr>enrollments := \<lparr>rows = [(1, \<lparr>enr_student_id = 1, enr_plan_id = 1,
                 start_date = \<lparr>year = 2023, month = 1, day = 31\<rparr>,
                 end_date = \<lparr>year = 2023, month = 4, day = 30\<rparr>, enr_price = 300\<rparr>)], next_pk = 2\<rparr>,
             outbox := [\<lparr>mail_to = ''Ana <ana@example.com>'',
                          mail_subject = ''Gympoint - Gold Plan Enrollment'',
                          mail_template = ''enrollment'',
                          mail_context = [(''studentName'', CStr ''Ana''), (''totalMonths'', CInt 3),
                            (''planTitle'', CStr ''Gold''), (''startDate'', CStr ''01/31/2023''),
                            (''endDate'', CStr ''04/30/2023''), (''price'', CStr ''300.00'')]\<rparr>]\<rparr>)"
proof -
  let ?sd = "\<lparr>year = 2023, month = 1, day = 31\<rparr>"
  have v: "valid_date ?sd" by (simp add: valid_date_def days_in_month_def)
  have end_date: "add_months ?sd 3 = \<lparr>year = 2023, month = 4, day = 30\<rparr>"
    by (simp add: add_months_def month_index_def days_in_month_def Let_def)
  have st: "find_pk (students demo_gym) 1 = Some \<lparr>name = ''Ana'', email = ''ana@example.com''\<rparr>"
    by (simp add: find_pk_def model_simps)
  have pl: "find_pk (plans demo_gym) 1 = Some demo_plan"
    by (simp add: find_pk_def model_simps)
  have e: "new_enrollment 1 1 demo_plan ?sd =
      \<lparr>enr_student_id = 1, enr_plan_id = 1, start_date = ?sd,
       end_date = \<lparr>year = 2023, month = 4, day = 30\<rparr>, enr_price = 300\<rparr>"
    using end_date by (simp add: new_enrollment_def demo_plan_def)
  have f1: "format_mdy ?sd = ''01/31/2023''" by code_simp
  have f2: "format_mdy \<lparr>year = 2023, month = 4, day = 30\<rparr> = ''04/30/2023''" by code_simp
  have f3: "to_fixed2 300 = ''300.00''"
  proof -
    have "nat_str 300 @ ''.00'' = ''300.00''" by code_simp
    then show ?thesis using to_fixed2_of_int [of 300] by simp
  qed
  have m: "enrollment_mail \<lparr>name = ''Ana'', email = ''ana@example.com''\<rparr> demo_plan ?sd
      (add_months ?sd (duration demo_plan)) (price demo_plan * of_int (duration demo_plan)) =
    \<lparr>mail_to = ''Ana <ana@example.com>'', mail_subject = ''Gympoint - Gold Plan Enrollment'',
     mail_template = ''enrollment'',
     mail_context = [(''studentName'', CStr ''Ana''), (''totalMonths'', CInt 3),
       (''planTitle'', CStr ''Gold''), (''startDate'', CStr ''01/31/2023''),
       (''endDate'', CStr ''04/30/2023''), (''price'', CStr ''300.00'')]\<rparr>"
    using f1 f2 f3 end_date
    by (simp add: enrollment_mail_def mail_recipient_def demo_plan_def)
  have eq: "enrollment_store demo_gym
     \<lparr>eb_student_id = Some 1, eb_plan_id = Some 1, eb_start_date = Some (Iso_date ?sd)\<rparr> =
    (Inr (next_pk (enrollments demo_gym), new_enrollment 1 1 demo_plan ?sd),
     demo_gym\<lparr>enrollments := snd (create (enrollments demo_gym) (new_enrollment 1 1 demo_plan ?sd)),
       outbox := outbox demo_gym @ [enrollment_mail \<lparr>name = ''Ana'', email = ''ana@example.com''\<rparr>
          demo_plan ?sd (add_months ?sd (duration demo_plan))
          (price demo_plan * of_int (duration demo_plan))]\<rparr>)"
    by (rule enrollment_store_ok [where sid = 1 and pid = 1, OF _ _ _ v st pl]) simp_all
  show ?thesis
    by (simp only: eq m e) (simp add: create_def model_simps empty_table_def)
qed
subsection \<open>Updating and deleting an enrollment\<close>

text \<open>
  C9: \<open>update\<close> of an existing enrollment with an existing student and plan and a
  valid ISO date replaces the whole row by one computed from the new plan: the old
  price and end date are discarded, the key stays, and no mail is sent.
\<close>

theorem enrollment_update_recomputes:
  assumes "find_pk (enrollments s) k = Some old"
    and "eb_student_id b = Some (of_int sid)" "eb_plan_id b = Some (of_int pid)"
    and "eb_start_date b = Some (Iso_date sd)" "valid_date sd"
    and "find_pk (students s) sid = Some st" "find_pk (plans s) pid = Some p"
  shows "fst (enrollment_update s k b) = Inr (k, new_enrollment sid pid p sd) \<and>
         tmap (enrollments (snd (enrollment_update s k b))) =
           (tmap (enrollments s))(k \<mapsto> new_enrollment sid pid p sd) \<and>
         enr_price (new_enrollment sid pid p sd) = price p * of_int (duration p) \<and>
         end_date (new_enrollment sid pid p sd) = add_months sd (duration p) \<and>
         outbox (snd (enrollment_update s k b)) = outbox s"
proof -
  have eq: "enrollment_update s k b =
    (Inr (k, new_enrollment sid pid p sd),
     s\<lparr>enrollments := update_pk (enrollments s) k (\<lambda>_. new_enrollment sid pid p sd)\<rparr>)"
    using assms by (rule enrollment_update_ok)
  from assms(1) show ?thesis
    by (simp add: eq tmap_update_pk new_enrollment_def model_simps)
qed

text \<open>
  C10: an update whose body carries only a new start date is refused with "Student not
  found", although the enrollment exists and refers to an existing student: the body's
  missing \<open>student_id\<close> is looked up instead of the enrollment's own.
\<close>

theorem enrollment_update_requires_ids:
  assumes "find_pk (enrollments s) k = Some e" and "yup_date x"
  shows "enrollment_update s k \<lparr>eb_student_id = None, eb_plan_id = None, eb_start_date = Some x\<rparr> =
         (Inl (Http_error 401 ''Student not found''), s)"
  using assms by (simp add: enrollment_update_def update_schema_def model_simps)

text \<open>
  C11: deleting an enrollment that does not exist answers 400 and changes nothing;
  deleting one that exists removes exactly that row.
\<close>

theorem enrollment_delete_spec:
  "(find_pk (enrollments s) k = None \<longrightarrow>
      enrollment_delete s k = (Inl (Http_error 400 ''Enrollment not found''), s)) \<and>
   (find_pk (enrollments s) k \<noteq> None \<longrightarrow>
      fst (enrollment_delete s k) = Inr () \<and>
      tmap (enrollments (snd (enrollment_delete s k))) = (tmap (enrollments s))(k := None) \<and>
      snd (enrollment_delete s k) = s\<lparr>enrollments := destroy_pk (enrollments s) k\<rparr>)"
  by (auto simp: enrollment_delete_def tmap_destroy_pk split: option.split)

subsection \<open>Witnesses\<close>

lemma demo_gym_lookups:
  "find_pk (students demo_gym) 1 = Some \<lparr>name = ''Ana'', email = ''ana@example.com''\<rparr>"
  "find_pk (plans demo_gym) 1 = Some demo_plan"
  "find_pk (students demo_enrolled) 1 = Some \<lparr>name = ''Ana'', email = ''ana@example.com''\<rparr>"
  "find_pk (plans demo_enrolled) 1 = Some demo_plan"
  "find_pk (enrollments demo_enrolled) 1 = Some demo_enrollment"
  by (simp_all add: find_pk_def model_simps)

lemma valid_date_jan31: "valid_date \<lparr>year = 2023, month = 1, day = 31\<rparr>"
  by (simp add: valid_date_def days_in_month_def)

theorem enrollment_store_contract_witness:
  "\<exists>k e. fst (enrollment_store demo_gym \<lparr>eb_student_id = Some 1, eb_plan_id = Some 1,
      eb_start_date = Some (Iso_date \<lparr>year = 2023, month = 1, day = 31\<rparr>)\<rparr>) = Inr (k, e) \<and>
      enr_price e = 300"
proof -
  have wf: "table_wf (enrollments demo_gym)" by (simp add: model_simps table_wf_empty)
  show ?thesis
    using enrollment_store_contract [OF wf _ _ _ valid_date_jan31 demo_gym_lookups(1,2),
        where b = "\<lparr>eb_student_id = Some 1, eb_plan_id = Some 1,
                    eb_start_date = Some (Iso_date \<lparr>year = 2023, month = 1, day = 31\<rparr>)\<rparr>"]
    by (auto simp: demo_plan_def)
qed

lemma not_is_int_three_halves: "\<not> is_int (3 / 2 :: rat)"
proof
  assume "is_int (3 / 2 :: rat)"
  then obtain k :: int where "(3 / 2 :: rat) = of_int k" by (metis is_int_floor)
  then have "(3 :: rat) = of_int (2 * k)" by (simp add: field_simps)
  then have "(3 :: int) = 2 * k" by (metis of_int_eq_iff of_int_numeral)
  then show False by presburger
qed

theorem enrollment_store_errors_witness:
  "enrollment_store demo_gym \<lparr>eb_student_id = Some (3 / 2), eb_plan_id = Some 1,
      eb_start_date = Some (Iso_date \<lparr>year = 2023, month = 1, day = 31\<rparr>)\<rparr> = (Inl validation_fails, demo_gym) \<and>
   enrollment_store demo_gym \<lparr>eb_student_id = Some 2, eb_plan_id = Some 1,
      eb_start_date = Some (Iso_date \<lparr>year = 2023, month = 1, day = 31\<rparr>)\<rparr> =
     (Inl (Http_error 401 ''Student not found''), demo_gym)"
proof -
  have "\<not> store_schema \<lparr>eb_student_id = Some (3 / 2), eb_plan_id = Some 1,
      eb_start_date = Some (Iso_date \<lparr>year = 2023, month = 1, day = 31\<rparr>)\<rparr>"
    using not_is_int_three_halves by (simp add: store_schema_def model_simps)
  moreover have "store_schema \<lparr>eb_student_id = Some 2, eb_plan_id = Some 1,
      eb_start_date = Some (Iso_date \<lparr>year = 2023, month = 1, day = 31\<rparr>)\<rparr>"
    by (simp add: store_schema_def model_simps yup_date_simps)
  moreover have "find_pk (students demo_gym) 2 = None" by (simp add: find_pk_def model_simps)
  ultimately show ?thesis
    using enrollment_store_errors [of "\<lparr>eb_student_id = Some (3 / 2), eb_plan_id = Some 1,
        eb_start_date = Some (Iso_date \<lparr>year = 2023, month = 1, day = 31\<rparr>)\<rparr>" demo_gym]
      enrollment_store_errors [of "\<lparr>eb_student_id = Some 2, eb_plan_id = Some 1,
        eb_start_date = Some (Iso_date \<lparr>year = 2023, month = 1, day = 31\<rparr>)\<rparr>" demo_gym]
    by simp
qed

theorem enrollment_store_non_iso_witness:
  "enrollment_store demo_gym \<lparr>eb_student_id = Some 1, eb_plan_id = Some 1,
      eb_start_date = Some (Non_iso_date \<lparr>year = 2023, month = 1, day = 31\<rparr>)\<rparr> =
   (Inl Server_error, demo_gym)"
  using enrollment_store_non_iso_date [where b = "\<lparr>eb_student_id = Some 1, eb_plan_id = Some 1,
      eb_start_date = Some (Non_iso_date \<lparr>year = 2023, month = 1, day = 31\<rparr>)\<rparr>",
      OF _ _ _ demo_gym_lookups(1,2)]
  by simp

theorem enrollment_update_recomputes_witness:
  "fst (enrollment_update demo_enrolled 1 \<lparr>eb_student_id = Some 1, eb_plan_id = Some 1,
      eb_start_date = Some (Iso_date \<lparr>year = 2023, month = 1, day = 31\<rparr>)\<rparr>) =
   Inr (1, new_enrollment 1 1 demo_plan \<lparr>year = 2023, month = 1, day = 31\<rparr>)"
  using enrollment_update_recomputes [where b = "\<lparr>eb_student_id = Some 1, eb_plan_id = Some 1,
      eb_start_date = Some (Iso_date \<lparr>year = 2023, month = 1, day = 31\<rparr>)\<rparr>",
      OF demo_gym_lookups(5) _ _ _ valid_date_jan31 demo_gym_lookups(3,4)]
  by simp

theorem enrollment_update_requires_ids_witness:
  "enrollment_update demo_enrolled 1
     \<lparr>eb_student_id = None, eb_plan_id = None,
      eb_start_date = Some (Iso_date \<lparr>year = 2023, month = 2, day = 1\<rparr>)\<rparr> =
   (Inl (Http_error 401 ''Student not found''), demo_enrolled)"
  using enrollment_update_requires_ids [OF demo_gym_lookups(5)] by (simp add: model_simps)

theorem enrollment_delete_witness:
  "fst (enrollment_delete demo_enrolled 1) = Inr () \<and>
   enrollment_delete demo_enrolled 2 = (Inl (Http_error 400 ''Enrollment not found''), demo_enrolled)"
proof -
  have "find_pk (enrollments demo_enrolled) 2 = None" by (simp add: find_pk_def model_simps)
  then show ?thesis
    using enrollment_delete_spec [of demo_enrolled 1] enrollment_delete_spec [of demo_enrolled 2]
          demo_gym_lookups(5)
    by simp
qed

end
