(* ===== verification/HelpOrderCtl.thy ===== *)
theory HelpOrderCtl
  imports Models
begin

text \<open>
  \<open>src/app/controllers/HelpOrderController.js\<close>: a student's questions and the
  staff's answers. \<open>store\<close> records a question without answer, \<open>answer\<close> sets the
  answer and its time, saves (without awaiting the write), then loads the student to
  mail the answer; \<open>unanswerdQuestions\<close> lists the orders whose answer time is
  \<open>null\<close> joined with the student's key and name.
\<close>

definition help_order_index :: "db \<Rightarrow> pk \<Rightarrow> help_order list res" where
  "help_order_index s sid =
     (case find_pk (students s) sid of
        None \<Rightarrow> Inl (Http_error 401 ''Student not found'')
      | Some _ \<Rightarrow> Inr (map snd (find_all (help_orders s) (\<lambda>h. ho_student_id h = sid))))"

definition help_order_store :: "db \<Rightarrow> pk \<Rightarrow> string option \<Rightarrow> (pk \<times> string) res \<times> db" where
  "help_order_store s sid q =
     (if \<not> req_str q then (Inl validation_fails, s)
      else case find_pk (students s) sid of
        None \<Rightarrow> (Inl (Http_error 401 ''Student not found''), s)
      | Some _ \<Rightarrow>
          let h = \<lparr>ho_student_id = sid, question = body_str q, answer = None, answer_at = None\<rparr>;
              (_, t) = create (help_orders s) h
          in (Inr (sid, body_str q), s\<lparr>help_orders := t\<rparr>))"

text \<open>An unanswered order with its student's \<open>{id, name}\<close>, \<open>null\<close> without one.\<close>

definition help_order_unanswered ::
  "db \<Rightarrow> (pk \<times> help_order \<times> (pk \<times> string) option) list" where
  "help_order_unanswered s =
     map (\<lambda>(k, h). (k, h, map_option (\<lambda>st. (ho_student_id h, name st))
                                      (find_pk (students s) (ho_student_id h))))
       (find_all (help_orders s) (\<lambda>h. answer_at h = None))"

definition answer_mail :: "student \<Rightarrow> string \<Rightarrow> string \<Rightarrow> mail" where
  "answer_mail st q a =
     \<lparr>mail_to = mail_recipient st,
      mail_subject = ''Gympoint - Your question has been answered'',
      mail_template = ''help_order_answer'',
      mail_context = [(''studentName'', CStr (name st)), (''question'', CStr q), (''answer'', CStr a)]\<rparr>"

text \<open>
  \<open>answer\<close>. The save is issued before the student is loaded; a help order whose
  student no longer exists makes \<open>student.name\<close> throw after the save, and the request
  ends in the error handler with the answer stored and no mail sent.
\<close>

definition help_order_answer ::
  "db \<Rightarrow> timestamp \<Rightarrow> pk \<Rightarrow> string option \<Rightarrow> (pk \<times> help_order) res \<times> db" where
  "help_order_answer s now k a =
     (if \<not> req_str a then (Inl validation_fails, s)
      else case find_pk (help_orders s) k of
        None \<Rightarrow> (Inl (Http_error 401 ''Help Order not found''), s)
      | Some h \<Rightarrow>
          let h' = h\<lparr>answer := Some (body_str a), answer_at := Some now\<rparr>;
              s1 = s\<lparr>help_orders := update_pk (help_orders s) k (\<lambda>_. h')\<rparr>
          in (case find_pk (students s1) (ho_student_id h) of
                None \<Rightarrow> (Inl Server_error, s1)
              | Some st \<Rightarrow>
                  (Inr (k, h'), s1\<lparr>outbox := outbox s1 @ [answer_mail st (question h) (body_str a)]\<rparr>)))"

text \<open>An order has an answer exactly when it has an answer time.\<close>

definition answer_pair_ok :: "help_order \<Rightarrow> bool" where
  "answer_pair_ok h \<longleftrightarrow> (answer h = None) = (answer_at h = None)"

definition answers_consistent :: "help_order table \<Rightarrow> bool" where
  "answers_consistent t \<longleftrightarrow> table_all answer_pair_ok t"

subsection \<open>Evaluation rules\<close>

lemma help_order_answer_ok:
  assumes "find_pk (help_orders s) k = Some h" "t \<noteq> []"
    and "find_pk (students s) (ho_student_id h) = Some st"
  shows "help_order_answer s now k (Some t) =
    (Inr (k, h\<lparr>answer := Some t, answer_at := Some now\<rparr>),
     s\<lparr>help_orders := update_pk (help_orders s) k (\<lambda>_. h\<lparr>answer := Some t, answer_at := Some now\<rparr>),
       outbox := outbox s @ [answer_mail st (question h) t]\<rparr>)"
  using assms by (simp add: help_order_answer_def model_simps Let_def)

lemma help_order_answer_saved:
  assumes "find_pk (help_orders s) k = Some h" "req_str a"
  shows "help_orders (snd (help_order_answer s now k a)) =
           update_pk (help_orders s) k (\<lambda>_. h\<lparr>answer := Some (body_str a), answer_at := Some now\<rparr>)"
  using assms
  by (auto simp: help_order_answer_def Let_def split: option.split)

lemma help_order_answer_frame:
  "students (snd (help_order_answer s now k a)) = students s \<and>
   plans (snd (help_order_answer s now k a)) = plans s \<and>
   enrollments (snd (help_order_answer s now k a)) = enrollments s \<and>
   checkins (snd (help_order_answer s now k a)) = checkins s"
  by (auto simp: help_order_answer_def Let_def split: option.split)

lemma help_order_store_frame [frame_simps]:
  "students (snd (help_order_store s sid q)) = students s"
  "plans (snd (help_order_store s sid q)) = plans s"
  "enrollments (snd (help_order_store s sid q)) = enrollments s"
  "checkins (snd (help_order_store s sid q)) = checkins s"
  "outbox (snd (help_order_store s sid q)) = outbox s"
  by (simp_all add: help_order_store_def Let_def split_def split: option.split)

lemma help_order_answer_frames [frame_simps]:
  "students (snd (help_order_answer s now k a)) = students s"
  "plans (snd (help_order_answer s now k a)) = plans s"
  "enrollments (snd (help_order_answer s now k a)) = enrollments s"
  "checkins (snd (help_order_answer s now k a)) = checkins s"
  using help_order_answer_frame by simp_all

lemma help_order_answer_outbox:
  "outbox (snd (help_order_answer s now k a)) = outbox s \<or>
   (\<not> isl (fst (help_order_answer s now k a)) \<and>
    (\<exists>i st m. tmap (students s) i = Some st \<and> mail_to m = mail_recipient st \<and>
       outbox (snd (help_order_answer s now k a)) = outbox s @ [m]))"
  by (auto simp: help_order_answer_def answer_mail_def model_simps Let_def split: option.splits)

lemma help_order_handlers_inv:
  assumes "table_wf (help_orders s)" "answers_consistent (help_orders s)"
  shows "table_wf (help_orders (snd (help_order_store s sid q)))"
    "answers_consistent (help_orders (snd (help_order_store s sid q)))"
    "table_wf (help_orders (snd (help_order_answer s now k a)))"
    "answers_consistent (help_orders (snd (help_order_answer s now k a)))"
  using assms
  by (auto simp: help_order_store_def help_order_answer_def Let_def split_def answer_pair_ok_def
                 answers_consistent_def
           intro!: create_wf update_pk_wf table_all_create table_all_update_pk split: option.split)

lemma keys_unanswered:
  "fst ` set (help_order_unanswered s) = fst ` set (find_all (help_orders s) (\<lambda>h. answer_at h = None))"
  by (force simp: help_order_unanswered_def)

subsection \<open>Answering\<close>

text \<open>
  C13: answering an existing order of an existing student with a non-empty text sets
  the answer and the answer time together, keeps the question, changes that row only,
  and mails the question and the answer to the student. The code has no guard on the
  order's state, so an order that was answered before is answered again the same way.
\<close>

theorem help_order_answer_sets_both:
  assumes "find_pk (help_orders s) k = Some h" "t \<noteq> []"
    and "find_pk (students s) (ho_student_id h) = Some st"
  shows "fst (help_order_answer s now k (Some t)) = Inr (k, h\<lparr>answer := Some t, answer_at := Some now\<rparr>) \<and>
         tmap (help_orders (snd (help_order_answer s now k (Some t)))) =
           (tmap (help_orders s))(k \<mapsto> h\<lparr>answer := Some t, answer_at := Some now\<rparr>) \<and>
         outbox (snd (help_order_answer s now k (Some t))) = outbox s @ [answer_mail st (question h) t]"
  using assms(1) by (simp add: help_order_answer_ok [OF assms] tmap_update_pk model_simps)

text \<open>
  C14: once an answer request for an existing order passes validation, the order is no
  longer among the unanswered ones, also when the request itself then fails.
\<close>

theorem help_order_answered_not_listed:
  assumes "table_wf (help_orders s)" "find_pk (help_orders s) k = Some h" "req_str a"
  shows "k \<notin> fst ` set (help_order_unanswered (snd (help_order_answer s now k a)))"
proof -
  let ?s' = "snd (help_order_answer s now k a)"
  have t: "help_orders ?s' = update_pk (help_orders s) k
              (\<lambda>_. h\<lparr>answer := Some (body_str a), answer_at := Some now\<rparr>)"
    using assms(2,3) by (rule help_order_answer_saved)
  then have wf: "table_wf (help_orders ?s')"
    using assms(1) by (simp add: update_pk_wf)
  have "tmap (help_orders ?s') k = Some (h\<lparr>answer := Some (body_str a), answer_at := Some now\<rparr>)"
    using t assms(2) by (simp add: tmap_update_pk model_simps)
  then have "k \<notin> fst ` set (find_all (help_orders ?s') (\<lambda>h. answer_at h = None))"
    using set_find_all [OF wf] by force
  then show ?thesis by (simp add: keys_unanswered)
qed

text \<open>
  C15: answering an order whose student no longer exists fails with a server error
  after the answer has been stored, and no mail is sent.
\<close>

theorem help_order_answer_missing_student:
  assumes "find_pk (help_orders s) k = Some h" "t \<noteq> []"
    and "find_pk (students s) (ho_student_id h) = None"
  shows "fst (help_order_answer s now k (Some t)) = Inl Server_error \<and>
         tmap (help_orders (snd (help_order_answer s now k (Some t)))) k =
           Some (h\<lparr>answer := Some t, answer_at := Some now\<rparr>) \<and>
         outbox (snd (help_order_answer s now k (Some t))) = outbox s"
  using assms by (simp add: help_order_answer_def model_simps Let_def tmap_update_pk)

subsection \<open>Asking\<close>

text \<open>
  C16: \<open>store\<close> refuses an empty or missing question with 400 and an unknown student
  with 401, changing nothing; otherwise it adds one unanswered order under a fresh key
  and answers with the student's key and the question.
\<close>

theorem help_order_store_spec:
  assumes "table_wf (help_orders s)"
  shows "(\<not> req_str q \<longrightarrow> help_order_store s sid q = (Inl validation_fails, s)) \<and>
    (req_str q \<and> find_pk (students s) sid = None \<longrightarrow>
       help_order_store s sid q = (Inl (Http_error 401 ''Student not found''), s)) \<and>
    (req_str q \<and> find_pk (students s) sid \<noteq> None \<longrightarrow>
       fst (help_order_store s sid q) = Inr (sid, body_str q) \<and>
       tmap (help_orders (snd (help_order_store s sid q))) =
         (tmap (help_orders s))(next_pk (help_orders s) \<mapsto>
            \<lparr>ho_student_id = sid, question = body_str q, answer = None, answer_at = None\<rparr>))"
proof -
  have "tmap (snd (create (help_orders s) x)) = (tmap (help_orders s))(next_pk (help_orders s) \<mapsto> x)"
    for x
    using assms by (rule tmap_create)
  then show ?thesis
    by (auto simp: help_order_store_def Let_def split_def split: option.split)
qed

subsection \<open>Witnesses\<close>

lemma demo_help_lookups:
  "find_pk (help_orders demo_help) 1 = Some demo_question"
  "find_pk (help_orders demo_help) 2 = Some (demo_question\<lparr>ho_student_id := 7\<rparr>)"
  "find_pk (students demo_help) (ho_student_id demo_question) =
     Some \<lparr>name = ''Ana'', email = ''ana@example.com''\<rparr>"
  "find_pk (students demo_help) (ho_student_id (demo_question\<lparr>ho_student_id := 7\<rparr>)) = None"
  "table_wf (help_orders demo_help)"
  by (simp_all add: find_pk_def model_simps demo_question_def table_wf_def)

theorem help_order_answer_sets_both_witness:
  "fst (help_order_answer demo_help 5 1 (Some ''Six to ten'')) =
   Inr (1, demo_question\<lparr>answer := Some ''Six to ten'', answer_at := Some 5\<rparr>)"
  using help_order_answer_sets_both [OF demo_help_lookups(1) _ demo_help_lookups(3), of "''Six to ten''" 5]
  by simp

theorem help_order_answered_not_listed_witness:
  "1 \<notin> fst ` set (help_order_unanswered (snd (help_order_answer demo_help 5 1 (Some ''Six to ten''))))"
  using help_order_answered_not_listed [OF demo_help_lookups(5,1), of "Some ''Six to ten''" 5]
  by (simp add: model_simps)

theorem help_order_answer_missing_student_witness:
  "fst (help_order_answer demo_help 5 2 (Some ''Six to ten'')) = Inl Server_error"
  using help_order_answer_missing_student [OF demo_help_lookups(2) _ demo_help_lookups(4),
      of "''Six to ten''" 5]
  by simp

theorem help_order_store_spec_witness:
  "help_order_store demo_help 1 (Some []) = (Inl validation_fails, demo_help) \<and>
   fst (help_order_store demo_help 1 (Some ''Parking?'')) = Inr (1, ''Parking?'')"
proof -
  have "find_pk (students demo_help) 1 \<noteq> None" by (simp add: find_pk_def model_simps)
  then show ?thesis
    using help_order_store_spec [OF demo_help_lookups(5), of "Some []" 1]
          help_order_store_spec [OF demo_help_lookups(5), of "Some ''Parking?''" 1]
    by (simp add: model_simps)
qed

end
