(* ===== verification/PlanCtl.thy ===== *)
theory PlanCtl
  imports Models
begin

text \<open>
  \<open>src/app/controllers/PlanController.js\<close>: the plan catalog. \<open>store\<close> and
  \<open>update\<close> validate the body and hand it to \<open>Plan.create\<close> and \<open>plan.update\<close>, which
  set exactly the columns the body carries; \<open>delete\<close> removes the row. Nothing here
  touches the enrollments that refer to a plan. The schemas do not strip unknown keys, so
  \<open>Plan.create(req.body)\<close> also takes an \<open>id\<close> from the body and inserts the row
  under it, bypassing the key sequence; \<open>plan.update\<close> ignores an \<open>id\<close>, since
  Sequelize does not overwrite the primary key of a row it has loaded.
\<close>

record plan_body =
  pb_title :: "string option"
  pb_duration :: "rat option"
  pb_price :: "rat option"
  pb_id :: "rat option"

text \<open>The schemas of \<open>store\<close> (lines 12--18) and \<open>update\<close> (lines 30--34).\<close>

definition plan_store_schema :: "plan_body \<Rightarrow> bool" where
  "plan_store_schema b \<longleftrightarrow> req_str (pb_title b) \<and> req_int (pb_duration b) \<and> pb_price b \<noteq> None"

definition plan_update_schema :: "plan_body \<Rightarrow> bool" where
  "plan_update_schema b \<longleftrightarrow> opt_int (pb_duration b)"

text \<open>The columns of a body set on a row (\<open>instance.set(body)\<close>).\<close>

definition set_plan_fields :: "plan_body \<Rightarrow> plan \<Rightarrow> plan" where
  "set_plan_fields b p =
     p\<lparr>title := (case pb_title b of None \<Rightarrow> title p | Some x \<Rightarrow> x),
       duration := (case pb_duration b of None \<Rightarrow> duration p | Some d \<Rightarrow> \<lfloor>d\<rfloor>),
       price := (case pb_price b of None \<Rightarrow> price p | Some x \<Rightarrow> x)\<rparr>"

text \<open>A new row before \<open>Plan.create\<close> sets its columns; the schema requires all three.\<close>

definition blank_plan :: plan where
  "blank_plan = \<lparr>title = [], duration = 0, price = 0\<rparr>"

text \<open>
  The key \<open>Plan.create\<close> inserts under: the sequence's when the body has no \<open>id\<close>
  (or \<open>null\<close>), the body's when it is an integer; any other number is refused by the
  integer column, a server error before anything is written.
\<close>

definition plan_key :: "rat option \<Rightarrow> pk option res" where
  "plan_key v = (case v of None \<Rightarrow> Inr None | Some r \<Rightarrow> if is_int r then Inr (Some \<lfloor>r\<rfloor>) else Inl Server_error)"

definition plan_index :: "db \<Rightarrow> (pk \<times> plan) list" where
  "plan_index s = rows (plans s)"

definition plan_store :: "db \<Rightarrow> plan_body \<Rightarrow> (pk \<times> plan) res \<times> db" where
  "plan_store s b =
     (if \<not> plan_store_schema b then (Inl validation_fails, s)
      else case plan_key (pb_id b) of
        Inl e \<Rightarrow> (Inl e, s)
      | Inr kk \<Rightarrow>
          let p = set_plan_fields b blank_plan;
              (r, t) = insert_row (plans s) kk p
          in (map_sum id (\<lambda>k. (k, p)) r, s\<lparr>plans := t\<rparr>))"

definition plan_update :: "db \<Rightarrow> pk \<Rightarrow> plan_body \<Rightarrow> (pk \<times> plan) res \<times> db" where
  "plan_update s k b =
     (if \<not> plan_update_schema b then (Inl validation_fails, s)
      else case find_pk (plans s) k of
        None \<Rightarrow> (Inl (Http_error 400 ''Plan not found''), s)
      | Some p \<Rightarrow>
          let p' = set_plan_fields b p
          in (Inr (k, p'), s\<lparr>plans := update_pk (plans s) k (\<lambda>_. p')\<rparr>))"

definition plan_delete :: "db \<Rightarrow> pk \<Rightarrow> unit res \<times> db" where
  "plan_delete s k =
     (case find_pk (plans s) k of
        None \<Rightarrow> (Inl (Http_error 400 ''Plan not found''), s)
      | Some _ \<Rightarrow> (Inr (), s\<lparr>plans := destroy_pk (plans s) k\<rparr>))"

subsection \<open>Frame and well-formedness\<close>

lemma plan_frames [frame_simps]:
  "students (snd (plan_store s b)) = students s" "enrollments (snd (plan_store s b)) = enrollments s"
  "checkins (snd (plan_store s b)) = checkins s" "help_orders (snd (plan_store s b)) = help_orders s"
  "outbox (snd (plan_store s b)) = outbox s"
  "students (snd (plan_update s k b)) = students s" "enrollments (snd (plan_update s k b)) = enrollments s"
  "checkins (snd (plan_update s k b)) = checkins s" "help_orders (snd (plan_update s k b)) = help_orders s"
  "outbox (snd (plan_update s k b)) = outbox s"
  "students (snd (plan_delete s k)) = students s" "enrollments (snd (plan_delete s k)) = enrollments s"
  "checkins (snd (plan_delete s k)) = checkins s" "help_orders (snd (plan_delete s k)) = help_orders s"
  "outbox (snd (plan_delete s k)) = outbox s"
  by (simp_all add: plan_store_def plan_update_def plan_delete_def Let_def split_def
                    split: option.split sum.split)

lemma plan_handlers_distinct:
  assumes "keys_distinct (plans s)"
  shows "keys_distinct (plans (snd (plan_store s b)))" "keys_distinct (plans (snd (plan_update s k b)))"
    "keys_distinct (plans (snd (plan_delete s k)))"
  using assms
  by (simp_all add: plan_store_def plan_update_def plan_delete_def Let_def split_def
                    keys_distinct_intros split: option.split sum.split)

lemma plan_store_default_key:
  assumes "plan_store_schema b" "pb_id b = None"
  shows "plan_store s b =
    (map_sum id (\<lambda>k. (k, set_plan_fields b blank_plan))
       (fst (insert_row (plans s) None (set_plan_fields b blank_plan))),
     s\<lparr>plans := snd (insert_row (plans s) None (set_plan_fields b blank_plan))\<rparr>)"
  using assms by (simp add: plan_store_def plan_key_def Let_def split_def)

subsection \<open>Creating a plan\<close>

text \<open>
  C17: \<open>store\<close> creates a plan from any non-empty title, any integer duration and any
  number as price: a duration of zero or less and a negative price are accepted,
  although the contract asks for a positive duration and a non-negative price. (The body
  carries no \<open>id\<close> and the sequence's next key is free, the case of a table only
  the sequence has filled.)
\<close>

theorem plan_store_any_duration:
  assumes "pb_title b = Some t" "t \<noteq> []" "pb_duration b = Some (of_int d)" "pb_price b = Some pr"
    and "pb_id b = None" "tmap (plans s) (next_pk (plans s)) = None"
  shows "plan_store s b =
    (Inr (next_pk (plans s), \<lparr>title = t, duration = d, price = pr\<rparr>),
     s\<lparr>plans := snd (create (plans s) \<lparr>title = t, duration = d, price = pr\<rparr>)\<rparr>)"
  using assms
  by (simp add: plan_store_def plan_store_schema_def plan_key_def set_plan_fields_def blank_plan_def
                insert_row_def model_simps create_def Let_def)

subsection \<open>Updating and deleting a plan\<close>

text \<open>
  C18: \<open>update\<close> of an existing plan changes exactly the columns the body carries and
  leaves the enrollments alone: their prices and end dates stay the ones computed from
  the plan as it was when they were written.
\<close>

theorem plan_update_merge:
  assumes "find_pk (plans s) k = Some p" "opt_int (pb_duration b)"
  shows "fst (plan_update s k b) = Inr (k, set_plan_fields b p) \<and>
         tmap (plans (snd (plan_update s k b))) = (tmap (plans s))(k \<mapsto> set_plan_fields b p) \<and>
         title (set_plan_fields b p) = (case pb_title b of None \<Rightarrow> title p | Some x \<Rightarrow> x) \<and>
         duration (set_plan_fields b p) =
           (case pb_duration b of None \<Rightarrow> duration p | Some x \<Rightarrow> \<lfloor>x\<rfloor>) \<and>
         price (set_plan_fields b p) = (case pb_price b of None \<Rightarrow> price p | Some x \<Rightarrow> x) \<and>
         enrollments (snd (plan_update s k b)) = enrollments s"
  using assms
  by (simp add: plan_update_def plan_update_schema_def set_plan_fields_def model_simps Let_def)

text \<open>
  C19: deleting a plan that does not exist answers 400 and changes nothing; deleting one
  that exists removes it and keeps every enrollment that refers to it, which then refers
  to no plan.
\<close>

theorem plan_delete_keeps_enrollments:
  "(find_pk (plans s) k = None \<longrightarrow> plan_delete s k = (Inl (Http_error 400 ''Plan not found''), s)) \<and>
   (find_pk (plans s) k \<noteq> None \<longrightarrow>
      fst (plan_delete s k) = Inr () \<and> find_pk (plans (snd (plan_delete s k))) k = None \<and>
      enrollments (snd (plan_delete s k)) = enrollments s)"
  by (auto simp: plan_delete_def model_simps split: option.split)

subsection \<open>Client-chosen keys\<close>

text \<open>
  C21: a valid \<open>store\<close> body that carries an integer \<open>id\<close> is inserted under that
  key when it is free, without advancing the key sequence, and answers with it; when the
  key is taken the insert violates the primary key, the request fails with a server
  error and nothing is written.
\<close>

theorem plan_store_client_key:
  assumes "plan_store_schema b" "pb_id b = Some (of_int k)"
  shows "(tmap (plans s) k = None \<longrightarrow>
           plan_store s b =
             (Inr (k, set_plan_fields b blank_plan),
              s\<lparr>plans := (plans s)\<lparr>rows := rows (plans s) @ [(k, set_plan_fields b blank_plan)]\<rparr>\<rparr>) \<and>
           tmap (plans (snd (plan_store s b))) = (tmap (plans s))(k \<mapsto> set_plan_fields b blank_plan) \<and>
           next_pk (plans (snd (plan_store s b))) = next_pk (plans s)) \<and>
         (tmap (plans s) k \<noteq> None \<longrightarrow> plan_store s b = (Inl Server_error, s))"
  using assms
  by (simp add: plan_store_def plan_key_def insert_row_free insert_row_bound tmap_append_fresh Let_def)

text \<open>
  C22: after a client has inserted a plan under the key the sequence would give next, a
  valid \<open>store\<close> body without \<open>id\<close> fails with a server error: the insert takes
  the next key, collides, and writes nothing but the advanced sequence, so the next such
  request gets the key after it.
\<close>

theorem plan_store_sequence_collision:
  assumes "plan_store_schema b" "pb_id b = None" "tmap (plans s) (next_pk (plans s)) \<noteq> None"
  shows "plan_store s b = (Inl Server_error, s\<lparr>plans := (plans s)\<lparr>next_pk := next_pk (plans s) + 1\<rparr>\<rparr>)"
  using assms by (simp add: plan_store_default_key insert_row_collision)

subsection \<open>Witnesses\<close>

theorem plan_store_any_duration_witness:
  "fst (plan_store demo_db \<lparr>pb_title = Some ''Trial'', pb_duration = Some 0, pb_price = Some (-10), pb_id = None\<rparr>) =
   Inr (1, \<lparr>title = ''Trial'', duration = 0, price = -10\<rparr>)"
  using plan_store_any_duration [of "\<lparr>pb_title = Some ''Trial'', pb_duration = Some 0, pb_price = Some (-10), pb_id = None\<rparr>"
      "''Trial''" 0 "-10" demo_db]
  by (simp add: model_simps empty_table_def tmap_def)

theorem plan_update_merge_witness:
  "fst (plan_update demo_gym 1 \<lparr>pb_title = None, pb_duration = None, pb_price = Some 90, pb_id = None\<rparr>) =
   Inr (1, \<lparr>title = ''Gold'', duration = 3, price = 90\<rparr>)"
proof -
  have "find_pk (plans demo_gym) 1 = Some demo_plan" by (simp add: find_pk_def model_simps)
  then show ?thesis
    using plan_update_merge [of demo_gym 1 demo_plan "\<lparr>pb_title = None, pb_duration = None, pb_price = Some 90, pb_id = None\<rparr>"]
    by (simp add: model_simps set_plan_fields_def demo_plan_def)
qed

theorem plan_delete_witness:
  "find_pk (plans (snd (plan_delete demo_enrolled 1))) 1 = None \<and>
   enrollments (snd (plan_delete demo_enrolled 1)) = enrollments demo_enrolled"
proof -
  have "find_pk (plans demo_enrolled) 1 \<noteq> None" by (simp add: find_pk_def model_simps)
  then show ?thesis using plan_delete_keeps_enrollments [of demo_enrolled 1] by simp
qed

theorem plan_store_client_key_witness:
  "plan_store demo_db \<lparr>pb_title = Some ''Gold'', pb_duration = Some 3, pb_price = Some 100, pb_id = Some 5\<rparr> =
     (Inr (5, demo_plan), demo_db\<lparr>plans := \<lparr>rows = [(5, demo_plan)], next_pk = 1\<rparr>\<rparr>) \<and>
   fst (plan_store demo_gym \<lparr>pb_title = Some ''Gold'', pb_duration = Some 3, pb_price = Some 100, pb_id = Some 1\<rparr>) =
     Inl Server_error"
proof -
  have "plan_store_schema \<lparr>pb_title = Some ''Gold'', pb_duration = Some 3, pb_price = Some 100, pb_id = Some 5\<rparr>"
    "plan_store_schema \<lparr>pb_title = Some ''Gold'', pb_duration = Some 3, pb_price = Some 100, pb_id = Some 1\<rparr>"
    by (simp_all add: plan_store_schema_def model_simps)
  then show ?thesis
    using plan_store_client_key [of "\<lparr>pb_title = Some ''Gold'', pb_duration = Some 3, pb_price = Some 100, pb_id = Some 5\<rparr>" 5 demo_db]
      plan_store_client_key [of "\<lparr>pb_title = Some ''Gold'', pb_duration = Some 3, pb_price = Some 100, pb_id = Some 1\<rparr>" 1 demo_gym]
    by (simp add: model_simps tmap_def empty_table_def set_plan_fields_def blank_plan_def demo_plan_def)
qed

theorem plan_store_sequence_collision_witness:
  "fst (plan_store (snd (plan_store demo_db
      \<lparr>pb_title = Some ''Gold'', pb_duration = Some 3, pb_price = Some 100, pb_id = Some 1\<rparr>))
      \<lparr>pb_title = Some ''Silver'', pb_duration = Some 1, pb_price = Some 80, pb_id = None\<rparr>) = Inl Server_error"
proof -
  have s1: "snd (plan_store demo_db
      \<lparr>pb_title = Some ''Gold'', pb_duration = Some 3, pb_price = Some 100, pb_id = Some 1\<rparr>) =
      demo_db\<lparr>plans := \<lparr>rows = [(1, demo_plan)], next_pk = 1\<rparr>\<rparr>"
    by (simp add: plan_store_def plan_store_schema_def plan_key_def insert_row_def model_simps
                  set_plan_fields_def blank_plan_def demo_plan_def empty_table_def tmap_def Let_def)
  have "plan_store_schema \<lparr>pb_title = Some ''Silver'', pb_duration = Some 1, pb_price = Some 80, pb_id = None\<rparr>"
    by (simp add: plan_store_schema_def model_simps)
  then show ?thesis
    using plan_store_sequence_collision [of "\<lparr>pb_title = Some ''Silver'', pb_duration = Some 1, pb_price = Some 80, pb_id = None\<rparr>"
        "demo_db\<lparr>plans := \<lparr>rows = [(1, demo_plan)], next_pk = 1\<rparr>\<rparr>"]
    by (simp add: s1 tmap_def)
qed

end
