(* ===== verification/Spec2Isabelle.thy ===== *)
theory Spec2Isabelle
  imports CheckinCtl EnrollmentCtl HelpOrderCtl PlanCtl
begin

text \<open>
  \<^bold>\<open>A verification model of the Gympoint backend.\<close>

  The repository (\<open>src/src/app\<close>) is an Express/Sequelize REST service for a gym:
  plans, enrollments of students in plans, check-ins and help orders. Each HTTP request
  runs one controller method: validate the JSON body with a Yup schema, look up the rows
  it refers to, apply one business rule, write, and for two of them send a mail. The
  controllers share nothing but the database, so the model is a database state
  (\<open>Models.db\<close>: one table per model plus the list of mails sent) and one function per
  controller method from a state (and, where the code reads the clock, the time) to a
  response and the next state. A response is \<open>Inr\<close> of the JSON body or \<open>Inl\<close> of the
  error the method answers with (\<open>Prelude.http_error\<close>).

  \<^bold>\<open>Theories.\<close>
  \<^item> \<open>Prelude\<close>: keys and timestamps, the error responses, the Yup field checks
    (\<open>req_int\<close>, \<open>opt_int\<close>, \<open>req_str\<close>), number rendering (\<open>nat_str\<close>,
    \<open>add_leading_zeros\<close>, \<open>to_fixed2\<close> for \<open>toFixed(2)\<close>), shared list and map lemmas.
  \<^item> \<open>Dates\<close>: the date-fns functions the controllers call, \<open>add_months\<close>
    (\<open>addMonths\<close>, with month-end clamping), \<open>sub_weeks\<close>, \<open>parse_iso\<close> and
    \<open>format_mdy\<close> (\<open>format(d, 'MM/dd/yyyy')\<close>). Modelled from the library's
    documentation; the library is not part of the repository.
  \<^item> \<open>Table\<close>: the Sequelize operations (\<open>find_pk\<close>, \<open>find_by_pk\<close>, \<open>find_all\<close>,
    \<open>create\<close>, \<open>update_pk\<close>, \<open>destroy_pk\<close>) on a table of rows in storage order with an
    auto-increment key, and \<open>insert_row\<close>, the PostgreSQL insert under a key the
    client may choose or the sequence's next value (consumed even when the insert fails
    on a duplicate key). Well-formedness (\<open>table_wf\<close>: distinct keys below the
    sequence) holds for tables only the sequence fills; \<open>keys_distinct\<close> (the
    primary-key constraint) for all; each operation refines an update of the finite map
    \<open>tmap\<close>.
  \<^item> \<open>Models\<close>: the row records (\<open>Plan.js\<close> and the models the controllers use but the
    repository does not contain), \<open>calculate_total_price\<close>
    (\<open>Plan.calculateTotalPrice\<close>), mails, the database state and sample states.
  \<^item> \<open>CheckinCtl\<close> (\<open>CheckinController.js\<close>): \<open>checkin_index\<close>, and \<open>checkin_store\<close>
    as its two phases \<open>checkin_read\<close> (student lookup and count of the week's check-ins)
    and \<open>checkin_write\<close> (decision and insert), so that overlapping requests can be
    interleaved.
  \<^item> \<open>EnrollmentCtl\<close> (\<open>EnrollmentController.js\<close>): \<open>enrollment_index\<close>,
    \<open>enrollment_store\<close> (with the enrollment mail), \<open>enrollment_update\<close>,
    \<open>enrollment_delete\<close>.
  \<^item> \<open>HelpOrderCtl\<close> (\<open>HelpOrderController.js\<close>): \<open>help_order_index\<close>,
    \<open>help_order_store\<close>, \<open>help_order_unanswered\<close>, \<open>help_order_answer\<close> (with the
    answer mail).
  \<^item> \<open>PlanCtl\<close> (\<open>PlanController.js\<close>): \<open>plan_index\<close>, \<open>plan_store\<close>,
    \<open>plan_update\<close>, \<open>plan_delete\<close>. \<open>Plan.create(req.body)\<close> passes every key of the
    body, so the plan body carries the \<open>id\<close> a client may send (\<open>pb_id\<close>); the other
    keys a body may carry name no column of \<open>Plan.js\<close> and are not modelled.
  \<^item> This theory: the routes as a datatype of requests and \<open>serve\<close>, the step every
    request makes; the reachable states of the service (requests at a clock that never
    goes back, and the student administration, which is outside the repository and may
    write the student table at any time); and the invariants of all reachable states.

  \<^bold>\<open>What the lemmas show.\<close> Per controller: the result of each method on every branch,
  errors included, in the order the code checks them; that a failing request changes
  nothing (or, where the code writes before it fails, exactly what it wrote); the
  contract of enrollment creation (price, end date, mail) and the spec's worked example;
  the weekly check-in limit for one request; that a plan body with an \<open>id\<close> is stored
  under it and makes the next plan created without one fail on the duplicate key. Across
  components: a request sends at most one mail, only when it succeeds and only to a
  registered student (\<open>serve_mail_discipline\<close>); and in every state reachable by
  requests that do not overlap (\<open>reachable_db_inv\<close>, by rule induction over
  \<open>reachable\<close>) the tables keep their keys distinct, an answer and its time are set
  together, no check-in lies after the clock, and no student has more than five
  check-ins in any one-week window. For requests that do overlap the last property
  fails, and \<open>CheckinCtl.checkin_interleaved_exceeds_limit\<close> shows how.

  \<^bold>\<open>Not modelled.\<close> Routing, authentication and sessions (\<open>routes.js\<close>,
  middleware) beyond the dispatch of \<open>serve\<close>; the student controller and model
  (represented by the environment step of \<open>reachable\<close>); mail transport (a sent mail is
  appended to the outbox); the Yup casting of strings to numbers; binary floating point
  (JSON numbers are rationals, so \<open>toFixed\<close> rounds the exact value); time zones and
  daylight saving (a week is 604800000 ms); the time of day a JavaScript \<open>Date\<close> keeps
  through \<open>addMonths\<close>. Nothing in the model runs a loop, so no fuel or termination
  argument is needed beyond the structural recursion of \<open>nat_str\<close>.
\<close>

datatype request =
    Plan_index | Plan_store plan_body | Plan_update pk plan_body | Plan_delete pk
  | Enrollment_index | Enrollment_store enrollment_body | Enrollment_update pk enrollment_body
  | Enrollment_delete pk
  | Checkin_index pk | Checkin_store pk
  | Help_order_index pk | Help_order_store pk "string option" | Help_order_unanswered
  | Help_order_answer pk "string option"

datatype reply =
    Plans_reply "(pk \<times> plan) list" | Plan_reply "pk \<times> plan"
  | Enrollments_reply "(pk \<times> enrollment) list" | Enrollment_reply "pk \<times> enrollment"
  | Checkins_reply "(pk \<times> checkin) list" | Checkin_reply "pk \<times> checkin"
  | Help_orders_reply "help_order list" | Question_reply "pk \<times> string"
  | Unanswered_reply "(pk \<times> help_order \<times> (pk \<times> string) option) list"
  | Help_order_reply "pk \<times> help_order" | No_content

definition reply_with :: "('a \<Rightarrow> reply) \<Rightarrow> 'a res \<times> db \<Rightarrow> reply res \<times> db" where
  "reply_with f r = (map_sum id f (fst r), snd r)"

fun serve :: "db \<Rightarrow> timestamp \<Rightarrow> request \<Rightarrow> reply res \<times> db" where
  "serve s now Plan_index = (Inr (Plans_reply (plan_index s)), s)"
| "serve s now (Plan_store b) = reply_with Plan_reply (plan_store s b)"
| "serve s now (Plan_update k b) = reply_with Plan_reply (plan_update s k b)"
| "serve s now (Plan_delete k) = reply_with (\<lambda>_. No_content) (plan_delete s k)"
| "serve s now Enrollment_index = (Inr (Enrollments_reply (enrollment_index s)), s)"
| "serve s now (Enrollment_store b) = reply_with Enrollment_reply (enrollment_store s b)"
| "serve s now (Enrollment_update k b) = reply_with Enrollment_reply (enrollment_update s k b)"
| "serve s now (Enrollment_delete k) = reply_with (\<lambda>_. No_content) (enrollment_delete s k)"
| "serve s now (Checkin_index sid) = (map_sum id Checkins_reply (checkin_index s sid), s)"
| "serve s now (Checkin_store sid) = reply_with Checkin_reply (checkin_store s now sid)"
| "serve s now (Help_order_index sid) = (map_sum id Help_orders_reply (help_order_index s sid), s)"
| "serve s now (Help_order_store sid q) = reply_with Question_reply (help_order_store s sid q)"
| "serve s now Help_order_unanswered = (Inr (Unanswered_reply (help_order_unanswered s)), s)"
| "serve s now (Help_order_answer k a) = reply_with Help_order_reply (help_order_answer s now k a)"

text \<open>
  The states the service can be in, with the time of the last request: it starts empty;
  a request is served at a time no earlier than the last one; the student administration
  may replace the student table.
\<close>

inductive reachable :: "db \<Rightarrow> timestamp \<Rightarrow> bool" where
  start: "reachable empty_db t"
| serve: "reachable s t \<Longrightarrow> t \<le> t' \<Longrightarrow> reachable (snd (serve s t' r)) t'"
| students: "reachable s t \<Longrightarrow> reachable (s\<lparr>students := st\<rparr>) t"

definition db_inv :: "db \<Rightarrow> timestamp \<Rightarrow> bool" where
  "db_inv s t \<longleftrightarrow>
     keys_distinct (plans s) \<and> table_wf (enrollments s) \<and> table_wf (checkins s) \<and>
     table_wf (help_orders s) \<and> answers_consistent (help_orders s) \<and>
     checkins_before s t \<and> weekly_ok s"

subsection \<open>The invariant of the service\<close>

lemma serve_reply_state [simp]: "snd (reply_with f r) = snd r"
  by (simp add: reply_with_def)

lemma db_inv_mono: "db_inv s t \<Longrightarrow> t \<le> t' \<Longrightarrow> db_inv s t'"
  by (auto simp: db_inv_def intro: checkins_before_mono)

lemma db_inv_start: "db_inv empty_db t"
  by (simp add: db_inv_def empty_db_def table_wf_def keys_distinct_def answers_consistent_def
                checkins_before_def
                table_all_def weekly_ok_def week_count_def empty_table_def)

lemma db_inv_students: "db_inv s t \<Longrightarrow> db_inv (s\<lparr>students := st\<rparr>) t"
  by (simp add: db_inv_def checkins_before_def weekly_ok_def week_count_def)

text \<open>A step that writes no check-in keeps the invariant when it keeps its own table.\<close>

lemma db_inv_other_tables:
  assumes "db_inv s t" "checkins s' = checkins s"
    and "keys_distinct (plans s')" "table_wf (enrollments s')"
    and "table_wf (help_orders s')" "answers_consistent (help_orders s')"
  shows "db_inv s' t"
  using assms by (simp add: db_inv_def checkins_before_def weekly_ok_def week_count_def)

lemma db_inv_checkin_store:
  assumes "db_inv s t" "t \<le> now"
  shows "db_inv (snd (checkin_store s now sid)) now"
proof -
  from assms have b: "checkins_before s now" by (auto simp: db_inv_def intro: checkins_before_mono)
  with assms show ?thesis
    by (simp add: db_inv_def frame_simps checkin_store_wf checkin_store_weekly_ok checkin_store_before)
qed

lemma db_inv_serve:
  assumes "db_inv s t" "t \<le> now"
  shows "db_inv (snd (serve s now r)) now"
proof -
  have i: "db_inv s now" using assms by (rule db_inv_mono)
  then have w: "keys_distinct (plans s)" "table_wf (enrollments s)" "table_wf (help_orders s)"
    "answers_consistent (help_orders s)"
    by (simp_all add: db_inv_def)
  show ?thesis
  proof (cases r)
    case (Checkin_store sid)
    with assms show ?thesis by (simp add: db_inv_checkin_store)
  qed (use i w in \<open>auto intro!: db_inv_other_tables [OF i] simp: frame_simps
        plan_handlers_distinct enrollment_handlers_wf help_order_handlers_inv\<close>)
qed

lemma reachable_db_inv: "reachable s t \<Longrightarrow> db_inv s t"
proof (induction rule: reachable.induct)
  case (start t)
  show ?case by (rule db_inv_start)
next
  case (serve s t t' r)
  from serve.IH serve.hyps(2) show ?case by (rule db_inv_serve)
next
  case (students s t st)
  from students.IH show ?case by (rule db_inv_students)
qed

subsection \<open>Invariants of the service\<close>

text \<open>
  C5: in every state the service reaches by requests that do not overlap, no student has
  more than five check-ins in any closed window of one week (604800000 ms), wherever the
  window lies.
\<close>

theorem weekly_limit_reachable:
  assumes "reachable s t"
  shows "week_count s sid T \<le> 5"
  using reachable_db_inv [OF assms] by (simp add: db_inv_def weekly_ok_def)

text \<open>
  C12: mail discipline of the service: a request sends at most one mail, only when it
  succeeds, and only to a student registered when the request is served (the recipient
  line of that student's name and address). A request that fails sends nothing, also the
  answer whose save went through before it failed.
\<close>

theorem serve_mail_discipline:
  "outbox (snd (serve s now r)) = outbox s \<or>
   (\<not> isl (fst (serve s now r)) \<and>
    (\<exists>k st m. tmap (students s) k = Some st \<and> mail_to m = mail_recipient st \<and>
       outbox (snd (serve s now r)) = outbox s @ [m]))"
proof (cases r)
  case (Enrollment_store b)
  then show ?thesis using enrollment_store_outbox [of s b] by (simp add: reply_with_def)
next
  case (Help_order_answer k a)
  then show ?thesis using help_order_answer_outbox [of s now k a] by (simp add: reply_with_def)
qed (simp_all add: frame_simps)

text \<open>
  C20: in every reachable state, a help order has an answer exactly when it has an
  answer time.
\<close>

theorem answers_set_together:
  assumes "reachable s t" "tmap (help_orders s) k = Some h"
  shows "answer h = None \<longleftrightarrow> answer_at h = None"
proof -
  have "answers_consistent (help_orders s)" "table_wf (help_orders s)"
    using reachable_db_inv [OF assms(1)] by (simp_all add: db_inv_def)
  with assms(2) show ?thesis
    by (auto simp: answers_consistent_def answer_pair_ok_def dest: table_all_tmap)
qed

subsection \<open>Witnesses\<close>

lemma reachable_demo_students: "reachable (empty_db\<lparr>students := students demo_db\<rparr>) 0"
  by (rule reachable.students [OF reachable.start])

lemma reachable_demo_checkin:
  "reachable (snd (serve (empty_db\<lparr>students := students demo_db\<rparr>) 0 (Checkin_store 1))) 0"
  by (rule reachable.serve [OF reachable_demo_students order_refl])

lemma reachable_demo_question:
  "reachable (snd (serve (empty_db\<lparr>students := students demo_db\<rparr>) 0
     (Help_order_store 1 (Some ''Opening hours?'')))) 0"
  by (rule reachable.serve [OF reachable_demo_students order_refl])

theorem weekly_limit_reachable_witness:
  "week_count (snd (serve (empty_db\<lparr>students := students demo_db\<rparr>) 0 (Checkin_store 1))) 1 0 \<le> 5"
  by (rule weekly_limit_reachable [OF reachable_demo_checkin])

theorem answers_set_together_witness:
  "answer demo_question = None \<longleftrightarrow> answer_at demo_question = None"
proof -
  have "tmap (help_orders (snd (serve (empty_db\<lparr>students := students demo_db\<rparr>) 0
     (Help_order_store 1 (Some ''Opening hours?''))))) 1 = Some demo_question"
    by (simp add: help_order_store_def find_pk_def create_def demo_question_def model_simps
                  empty_db_def empty_table_def tmap_def)
  then show ?thesis by (rule answers_set_together [OF reachable_demo_question])
qed

theorem serve_mail_discipline_witness:
  "\<exists>k st m. tmap (students demo_help) k = Some st \<and> mail_to m = mail_recipient st \<and>
     outbox (snd (serve demo_help 5 (Help_order_answer 1 (Some ''From 6am'')))) = outbox demo_help @ [m]"
proof -
  have sent: "outbox (snd (serve demo_help 5 (Help_order_answer 1 (Some ''From 6am'')))) \<noteq> outbox demo_help"
    by (simp add: reply_with_def help_order_answer_def demo_question_def model_simps tmap_def Let_def)
  from serve_mail_discipline [of demo_help 5 "Help_order_answer 1 (Some ''From 6am'')"] sent
  show ?thesis by blast
qed

end
